theory Spec2Isabelle
  imports Main
begin

section \<open>JavaScript values\<close>

text \<open>
  The documents the program handles (the registry's response, the record it assembles,
  the raw authors) are JSON documents, read with JavaScript's rules. A value is one of
  the JSON values or \<open>undefined\<close>. An object is the list of its own properties in
  enumeration order; a lookup takes the first binding of a key. Numbers are restricted
  to integers, and a character is one code unit below 256.
\<close>

datatype jsval =
    Undefined
  | Null
  | Bool bool
  | Num int
  | Str string
  | Arr "jsval list"
  | Obj "(string \<times> jsval) list"

text \<open>Every error the modelled code can raise: a \<open>TypeError\<close> of the language
  itself, or a failure reported by an external collaborator, with its message.\<close>

datatype error = TypeError | Failure string

text \<open>\<open>!!x\<close>: the falsy values are \<open>undefined\<close>, \<open>null\<close>, \<open>false\<close>, \<open>0\<close>
  and the empty string.\<close>

fun truthy :: "jsval \<Rightarrow> bool" where
  "truthy Undefined = False"
| "truthy Null = False"
| "truthy (Bool b) = b"
| "truthy (Num n) = (n \<noteq> 0)"
| "truthy (Str s) = (s \<noteq> [])"
| "truthy (Arr xs) = True"
| "truthy (Obj kvs) = True"

text \<open>\<open>a || b\<close>\<close>

definition js_or :: "jsval \<Rightarrow> jsval \<Rightarrow> jsval" where
  "js_or a b = (if truthy a then a else b)"

fun digit_char :: "nat \<Rightarrow> char" where
  "digit_char n = char_of (48 + n)"

fun nat_to_string :: "nat \<Rightarrow> string" where
  "nat_to_string n =
     (if n < 10 then [digit_char n] else nat_to_string (n div 10) @ [digit_char (n mod 10)])"

definition int_to_string :: "int \<Rightarrow> string" where
  "int_to_string i = (if i < 0 then CHR ''-'' # nat_to_string (nat (- i)) else nat_to_string (nat i))"

text \<open>\<open>xs.join(sep)\<close> on strings.\<close>

fun join_strings :: "string \<Rightarrow> string list \<Rightarrow> string" where
  "join_strings sep [] = []"
| "join_strings sep [x] = x"
| "join_strings sep (x # y # ys) = x @ sep @ join_strings sep (y # ys)"

text \<open>The conversion to a string that a template literal applies to \<open>${v}\<close>.\<close>

fun to_string :: "jsval \<Rightarrow> string" where
  "to_string Undefined = ''undefined''"
| "to_string Null = ''null''"
| "to_string (Bool b) = (if b then ''true'' else ''false'')"
| "to_string (Num n) = int_to_string n"
| "to_string (Str s) = s"
| "to_string (Arr xs) =
     join_strings '','' (map (\<lambda>x. if x = Undefined \<or> x = Null then [] else to_string x) xs)"
| "to_string (Obj kvs) = ''[object Object]''"

text \<open>
  \<open>v.key\<close> and \<open>v[key]\<close>: a \<open>TypeError\<close> on \<open>undefined\<close> and \<open>null\<close>, the own
  property of an object, an element or the length of an array or a string, and
  \<open>undefined\<close> otherwise. Properties inherited from a prototype are not modelled; none
  of the keys the program writes in its text names one.
\<close>

definition index_of_key :: "string \<Rightarrow> nat \<Rightarrow> nat option" where
  "index_of_key key n = List.find (\<lambda>i. nat_to_string i = key) [0..<n]"

fun get_prop :: "jsval \<Rightarrow> string \<Rightarrow> error + jsval" where
  "get_prop Undefined key = Inl TypeError"
| "get_prop Null key = Inl TypeError"
| "get_prop (Obj kvs) key = Inr (case map_of kvs key of None \<Rightarrow> Undefined | Some v \<Rightarrow> v)"
| "get_prop (Arr xs) key =
     Inr (case index_of_key key (length xs) of
            Some i \<Rightarrow> xs ! i
          | None \<Rightarrow> if key = ''length'' then Num (int (length xs)) else Undefined)"
| "get_prop (Str s) key =
     Inr (case index_of_key key (length s) of
            Some i \<Rightarrow> Str [s ! i]
          | None \<Rightarrow> if key = ''length'' then Num (int (length s)) else Undefined)"
| "get_prop (Bool b) key = Inr Undefined"
| "get_prop (Num n) key = Inr Undefined"

text \<open>\<open>obj.key = v\<close> on the property list of an object: an existing property keeps its
  place, a new one goes last.\<close>

fun obj_set :: "(string \<times> jsval) list \<Rightarrow> string \<Rightarrow> jsval \<Rightarrow> (string \<times> jsval) list" where
  "obj_set [] key v = [(key, v)]"
| "obj_set ((k, w) # kvs) key v = (if k = key then (k, v) # kvs else (k, w) # obj_set kvs key v)"

text \<open>The own enumerable properties that an object spread \<open>{...v}\<close> copies.\<close>

fun own_props :: "jsval \<Rightarrow> (string \<times> jsval) list" where
  "own_props (Obj kvs) = kvs"
| "own_props (Arr xs) = zip (map nat_to_string [0..<length xs]) xs"
| "own_props (Str s) = zip (map nat_to_string [0..<length s]) (map (\<lambda>c. Str [c]) s)"
| "own_props v = []"

text \<open>The own property of an object that is known to be one.\<close>

definition lookup :: "(string \<times> jsval) list \<Rightarrow> string \<Rightarrow> jsval" where
  "lookup kvs key = (case map_of kvs key of None \<Rightarrow> Undefined | Some v \<Rightarrow> v)"

text \<open>One spread \<open>...v\<close> inside an object literal: each own key of \<open>v\<close> in turn is
  assigned the value that \<open>v\<close> has for it.\<close>

definition spread_into :: "(string \<times> jsval) list \<Rightarrow> jsval \<Rightarrow> (string \<times> jsval) list" where
  "spread_into acc v =
     foldl (\<lambda>obj key. obj_set obj key (lookup (own_props v) key)) acc (map fst (own_props v))"

text \<open>\<open>{...a, ...b}\<close>: the properties of \<open>a\<close>, then those of \<open>b\<close> assigned over them.\<close>

definition spread2 :: "jsval \<Rightarrow> jsval \<Rightarrow> (string \<times> jsval) list" where
  "spread2 a b = spread_into (spread_into [] a) b"

section \<open>Strings\<close>

text \<open>\<open>s.split(c)\<close> for a separator of one character.\<close>

fun split_on :: "char \<Rightarrow> string \<Rightarrow> string list" where
  "split_on c [] = [[]]"
| "split_on c (x # xs) =
     (if x = c then [] # split_on c xs
      else (case split_on c xs of [] \<Rightarrow> [[x]] | p # ps \<Rightarrow> (x # p) # ps))"

text \<open>\<open>s.split(c, limit)\<close>: the first \<open>limit\<close> pieces.\<close>

definition split_limit :: "char \<Rightarrow> nat \<Rightarrow> string \<Rightarrow> string list" where
  "split_limit c limit s = take limit (split_on c s)"

definition is_whitespace :: "char \<Rightarrow> bool" where
  "is_whitespace c = (of_char c \<in> {9, 10, 11, 12, 13, 32, 160 :: nat})"

text \<open>\<open>s.trim()\<close>\<close>

definition trim :: "string \<Rightarrow> string" where
  "trim s = rev (dropWhile is_whitespace (rev (dropWhile is_whitespace s)))"

text \<open>\<open>s.toLowerCase()\<close> on code units below 256.\<close>

definition lower_char :: "char \<Rightarrow> char" where
  "lower_char c =
     (let n = (of_char c :: nat)
      in if (65 \<le> n \<and> n \<le> 90) \<or> (192 \<le> n \<and> n \<le> 222 \<and> n \<noteq> 215) then char_of (n + 32) else c)"

definition toLowerCase :: "string \<Rightarrow> string" where
  "toLowerCase s = map lower_char s"

section \<open>Paths\<close>

text \<open>
  Node's \<open>path\<close> module for POSIX paths. \<open>normalize_segs\<close> is its
  \<open>normalizeString\<close> on the segments between the slashes: empty segments and \<open>.\<close>
  go, \<open>..\<close> removes the segment before it, or stays when there is none and the path
  may climb above its start. The segments kept are held last first.
\<close>

fun normalize_segs :: "bool \<Rightarrow> string list \<Rightarrow> string list \<Rightarrow> string list" where
  "normalize_segs climb kept [] = rev kept"
| "normalize_segs climb kept (seg # segs) =
     (if seg = [] \<or> seg = ''.'' then normalize_segs climb kept segs
      else if seg = ''..'' then
        (case kept of
           [] \<Rightarrow> normalize_segs climb (if climb then [''..''] else []) segs
         | k # ks \<Rightarrow>
             if k = ''..'' then normalize_segs climb (if climb then ''..'' # kept else kept) segs
             else normalize_segs climb ks segs)
      else normalize_segs climb (seg # kept) segs)"

definition normalizeString :: "string \<Rightarrow> bool \<Rightarrow> string" where
  "normalizeString p climb = join_strings ''/'' (normalize_segs climb [] (split_on CHR ''/'' p))"

definition isAbsolute :: "string \<Rightarrow> bool" where
  "isAbsolute p = (case p of [] \<Rightarrow> False | c # cs \<Rightarrow> c = CHR ''/'')"

text \<open>\<open>path.normalize(p)\<close>\<close>

definition normalize :: "string \<Rightarrow> string" where
  "normalize p =
     (if p = [] then ''.''
      else
        let trailing = (last p = CHR ''/'');
            q = normalizeString p (\<not> isAbsolute p)
        in if q = [] then (if isAbsolute p then ''/'' else if trailing then ''./'' else ''.'')
           else (if isAbsolute p then ''/'' else []) @ q @ (if trailing then ''/'' else []))"

text \<open>\<open>path.join(...parts)\<close> on strings: the non-empty parts joined by a slash, normalized.\<close>

definition join :: "string list \<Rightarrow> string" where
  "join parts =
     (case filter (\<lambda>p. p \<noteq> []) parts of
        [] \<Rightarrow> ''.''
      | ps \<Rightarrow> normalize (join_strings ''/'' ps))"

text \<open>\<open>path.join\<close> checks that every argument is a string, and throws otherwise.\<close>

fun strings_of :: "jsval list \<Rightarrow> error + string list" where
  "strings_of [] = Inr []"
| "strings_of (Str s # vs) = (case strings_of vs of Inl e \<Rightarrow> Inl e | Inr ss \<Rightarrow> Inr (s # ss))"
| "strings_of (v # vs) = Inl TypeError"

definition join_vals :: "jsval list \<Rightarrow> error + string" where
  "join_vals vs = (case strings_of vs of Inl e \<Rightarrow> Inl e | Inr ss \<Rightarrow> Inr (join ss))"

text \<open>\<open>path.resolve(p)\<close> with one argument, in a process whose current working
  directory is the absolute path \<open>cwd\<close>.\<close>

definition resolve :: "string \<Rightarrow> string \<Rightarrow> string" where
  "resolve cwd p =
     CHR ''/'' # normalizeString (if isAbsolute p then p else if p = [] then cwd else cwd @ ''/'' @ p) False"

section \<open>The regular expressions of the author parser\<close>

text \<open>
  A backtracking matcher for the constructs the three expressions of
  \<open>transformAuthors\<close> use, in the order a JavaScript engine tries the alternatives: a
  lazy star takes as little as it can, a greedy plus and an optional group as much as
  they can. A match is the text of capture group 1. The dot matches every character
  but a line terminator. All three expressions start with \<open>^\<close>, so a match starts at
  the first character.
\<close>

datatype regex =
    Lit char
  | AnyLazyStar
  | AnyPlus
  | Seq regex regex
  | Alt regex regex
  | Opt regex
  | Upto2 regex
  | Group regex
  | EndOfInput

type_synonym cont = "string \<Rightarrow> string option \<Rightarrow> string option option"

definition is_line_terminator :: "char \<Rightarrow> bool" where
  "is_line_terminator c = (of_char c \<in> {10, 13 :: nat})"

fun lazy_star :: "cont \<Rightarrow> cont" where
  "lazy_star k [] cap = k [] cap"
| "lazy_star k (x # xs) cap =
     (case k (x # xs) cap of
        Some r \<Rightarrow> Some r
      | None \<Rightarrow> if is_line_terminator x then None else lazy_star k xs cap)"

fun greedy_star :: "cont \<Rightarrow> cont" where
  "greedy_star k [] cap = k [] cap"
| "greedy_star k (x # xs) cap =
     (if is_line_terminator x then k (x # xs) cap
      else (case greedy_star k xs cap of Some r \<Rightarrow> Some r | None \<Rightarrow> k (x # xs) cap))"

primrec rx_match :: "regex \<Rightarrow> cont \<Rightarrow> cont" where
  "rx_match (Lit c) k =
     (\<lambda>s cap. case s of [] \<Rightarrow> None | x # xs \<Rightarrow> if x = c then k xs cap else None)"
| "rx_match AnyLazyStar k = lazy_star k"
| "rx_match AnyPlus k =
     (\<lambda>s cap. case s of [] \<Rightarrow> None
               | x # xs \<Rightarrow> if is_line_terminator x then None else greedy_star k xs cap)"
| "rx_match (Seq a b) k = rx_match a (rx_match b k)"
| "rx_match (Alt a b) k =
     (\<lambda>s cap. case rx_match a k s cap of Some r \<Rightarrow> Some r | None \<Rightarrow> rx_match b k s cap)"
| "rx_match (Opt a) k =
     (\<lambda>s cap. case rx_match a k s cap of Some r \<Rightarrow> Some r | None \<Rightarrow> k s cap)"
| "rx_match (Upto2 a) k =
     (\<lambda>s cap.
        case rx_match a
               (\<lambda>s' cap'. case rx_match a k s' cap' of Some r \<Rightarrow> Some r | None \<Rightarrow> k s' cap')
               s cap of
          Some r \<Rightarrow> Some r
        | None \<Rightarrow> k s cap)"
| "rx_match (Group a) k =
     (\<lambda>s cap. rx_match a (\<lambda>s' cap'. k s' (Some (take (length s - length s') s))) s cap)"
| "rx_match EndOfInput k = (\<lambda>s cap. if s = [] then k s cap else None)"

text \<open>\<open> <.+>\<close> and \<open> \(.+\)\<close>\<close>

definition segment :: "char \<Rightarrow> char \<Rightarrow> regex" where
  "segment l r = Seq (Lit CHR '' '') (Seq (Lit l) (Seq AnyPlus (Lit r)))"

definition angle :: regex where
  "angle = segment CHR ''<'' CHR ''>''"

definition paren :: regex where
  "paren = segment CHR ''('' CHR '')''"

text \<open>\<open>/^.*?((?: <.+>)?)(?: \(.+\))?$/\<close>\<close>

definition email_regex :: regex where
  "email_regex = Seq AnyLazyStar (Seq (Group (Opt angle)) (Seq (Opt paren) EndOfInput))"

text \<open>\<open>/^.*?((?: \(.+\))?)(?: <.+>)?$/\<close>\<close>

definition url_regex :: regex where
  "url_regex = Seq AnyLazyStar (Seq (Group (Opt paren)) (Seq (Opt angle) EndOfInput))"

text \<open>\<open>/^(.*?)(?:(?: \(.+\))|(?: <.+>)){0,2}$/\<close>\<close>

definition name_regex :: regex where
  "name_regex = Seq (Group AnyLazyStar) (Seq (Upto2 (Alt paren angle)) EndOfInput)"

text \<open>\<open>v.match(rx)[1]\<close>: a \<open>TypeError\<close> when \<open>v\<close> is not a string (it has no
  \<open>match\<close> to call) and when nothing matches (\<open>match\<close> returns \<open>null\<close>).\<close>

definition match_group1 :: "jsval \<Rightarrow> regex \<Rightarrow> error + jsval" where
  "match_group1 v rx =
     (case v of
        Str s \<Rightarrow>
          (case rx_match rx (\<lambda>s' cap. Some cap) s None of
             None \<Rightarrow> Inl TypeError
           | Some None \<Rightarrow> Inr Undefined
           | Some (Some g) \<Rightarrow> Inr (Str g))
      | _ \<Rightarrow> Inl TypeError)"

text \<open>\<open>g.slice(2).slice(0, -1)\<close> on what \<open>match_group1\<close> gives.\<close>

definition slice_inner :: "jsval \<Rightarrow> error + jsval" where
  "slice_inner g = (case g of Str s \<Rightarrow> Inr (Str (butlast (drop 2 s))) | _ \<Rightarrow> Inl TypeError)"

section \<open>Author normalization\<close>

definition bind_err :: "error + 'a \<Rightarrow> ('a \<Rightarrow> error + 'b) \<Rightarrow> error + 'b" where
  "bind_err r f = (case r of Inl e \<Rightarrow> Inl e | Inr x \<Rightarrow> f x)"

text \<open>The body of the \<open>map\<close> callback of \<open>transformAuthors\<close>, for one author.\<close>

definition transformAuthor :: "jsval \<Rightarrow> error + jsval" where
  "transformAuthor author =
     bind_err (case author of Str s \<Rightarrow> Inr (Str s) | _ \<Rightarrow> get_prop author ''name'') (\<lambda>name.
     bind_err (get_prop author ''email'') (\<lambda>author_email.
     bind_err (if truthy author_email then Inr author_email
               else bind_err (match_group1 name email_regex) slice_inner) (\<lambda>email.
     bind_err (get_prop author ''url'') (\<lambda>author_url.
     bind_err (get_prop author ''homepage'') (\<lambda>author_homepage.
     bind_err (if truthy author_url then Inr author_url
               else if truthy author_homepage then Inr author_homepage
               else bind_err (match_group1 name url_regex) slice_inner) (\<lambda>url.
     bind_err (match_group1 name name_regex) (\<lambda>name'.
       Inr (Obj (filter (\<lambda>(key, v). truthy v)
                  [(''name'', name'), (''email'', email), (''url'', url)])))))))))"

text \<open>\<open>xs.map(f)\<close> for a callback that may throw: the first error ends the whole map.\<close>

fun map_err :: "('a \<Rightarrow> error + 'b) \<Rightarrow> 'a list \<Rightarrow> error + 'b list" where
  "map_err f [] = Inr []"
| "map_err f (x # xs) =
     (case f x of
        Inl e \<Rightarrow> Inl e
      | Inr y \<Rightarrow> (case map_err f xs of Inl e \<Rightarrow> Inl e | Inr ys \<Rightarrow> Inr (y # ys)))"

definition transformAuthors :: "jsval list \<Rightarrow> error + jsval list" where
  "transformAuthors authors = map_err transformAuthor (filter truthy authors)"

section \<open>The console, the user and the collaborators\<close>

text \<open>
  The program talks to the user through prompts and console lines. A world is the lines
  the user has still to type and what the program has written so far; the colours that
  \<open>chalk\<close> adds are left out. \<open>ErrOf e part\<close> is \<open>console.error\<close> of a caught error
  \<open>e\<close>, or of one of its fields.
\<close>

datatype part = Whole | Message | MessageAndStack | Status

datatype event = Prompt string | Log string | Err string | ErrOf error part

type_synonym world = "string list \<times> event list"

text \<open>A call returns a value, throws, or waits for a line that never comes.\<close>

datatype 'a result = Return 'a | Throw error | Blocked

type_synonym 'a io = "world \<Rightarrow> 'a result \<times> world"

definition bind_io :: "'a io \<Rightarrow> ('a \<Rightarrow> 'b io) \<Rightarrow> 'b io" where
  "bind_io m f w =
     (case m w of
        (Return x, w') \<Rightarrow> f x w'
      | (Throw e, w') \<Rightarrow> (Throw e, w')
      | (Blocked, w') \<Rightarrow> (Blocked, w'))"

definition return_io :: "'a \<Rightarrow> 'a io" where
  "return_io x w = (Return x, w)"

text \<open>A call that cannot block: its value, or the error it throws.\<close>

definition lift_io :: "error + 'a \<Rightarrow> 'a io" where
  "lift_io r w = (case r of Inl e \<Rightarrow> (Throw e, w) | Inr x \<Rightarrow> (Return x, w))"

definition emit :: "event \<Rightarrow> unit io" where
  "emit ev w = (Return (), (fst w, snd w @ [ev]))"

text \<open>\<open>input(question)\<close>: the question is written, and the call resolves with the next
  line the user types.\<close>

definition input :: "string \<Rightarrow> string io" where
  "input question w =
     (case fst w of
        [] \<Rightarrow> (Blocked, ([], snd w @ [Prompt question]))
      | resp # rest \<Rightarrow> (Return resp, (rest, snd w @ [Prompt question])))"

text \<open>The argument object of \<open>octokit.createPullRequest\<close>.\<close>

record pr_request =
  pr_owner :: string
  pr_repo :: string
  pr_title :: string
  pr_body :: string
  pr_head :: string
  pr_files :: "(string \<times> string) list"
  pr_commit :: string

text \<open>
  What the program takes from its surroundings: the directory of its script
  (\<open>__dirname\<close>), the current working directory of its process, the values of its
  \<open>config\<close> module, the file system (\<open>glob.sync\<close> with its options, \<open>fs.lstat\<close>,
  \<open>fs.readFile\<close>, \<open>fs.readdir\<close> with each entry's \<open>isDirectory()\<close>, \<open>fs.rmdir\<close>),
  the registry (\<open>fetch(url)\<close> and \<open>json()\<close>), \<open>download\<close>, the pull-request call and
  JavaScript's \<open>Number\<close> on the text of a choice. The source-host variant \<open>github\<close>
  is not studied here: \<open>main\<close> takes it as given, as any computation that returns a
  record or \<open>undefined\<close>.
\<close>

text \<open>The options that the program passes to \<open>glob.sync\<close>: the directory to search
  in (\<open>cwd\<close>) and whether directories are left out of the result (\<open>nodir\<close>).\<close>

record glob_options =
  glob_cwd :: string
  nodir :: bool

record env =
  dirname :: string
  cwd :: string
  targetRepoOwner :: string
  targetRepoName :: string
  branchBase :: string
  glob :: "jsval \<Rightarrow> glob_options \<Rightarrow> error + string list"
  lstat_isFile :: "string \<Rightarrow> error + bool"
  readFile :: "string \<Rightarrow> error + string"
  readdir :: "string \<Rightarrow> error + (string \<times> bool) list"
  rmdir :: "string \<Rightarrow> error + unit"
  registry :: "string \<Rightarrow> error + jsval"
  download :: "jsval \<Rightarrow> string \<Rightarrow> error + unit"
  createPullRequest :: "pr_request \<Rightarrow> error + jsval"
  Number :: "string \<Rightarrow> jsval"
  github :: "(string \<times> jsval) list \<Rightarrow> jsval io"

text \<open>The call \<open>glob(pattern, { cwd: dir, nodir: true })\<close>, as the program writes it in
  both places where it calls \<open>glob\<close>.\<close>

definition glob_files :: "env \<Rightarrow> jsval \<Rightarrow> string \<Rightarrow> error + string list" where
  "glob_files env pattern dir = glob env pattern \<lparr> glob_cwd = dir, nodir = True \<rparr>"

definition TAB :: string where
  "TAB = [CHR 0x09]"

definition NL :: string where
  "NL = [CHR 0x0A]"

section \<open>The interactive explorer\<close>

text \<open>The \<open>try\<close> block of \<open>explore\<close>, with its \<open>catch\<close>: the one line it writes.\<close>

definition explore_try :: "env \<Rightarrow> string \<Rightarrow> string \<Rightarrow> event" where
  "explore_try env path pathInput =
     (case lstat_isFile env (join [path, pathInput]) of
        Inl e \<Rightarrow> ErrOf e Message
      | Inr True \<Rightarrow>
          (case readFile env (join [path, pathInput]) of
             Inl e \<Rightarrow> ErrOf e Message
           | Inr content \<Rightarrow> Log content)
      | Inr False \<Rightarrow>
          (case readdir env (join [path, pathInput]) of
             Inl e \<Rightarrow> ErrOf e Message
           | Inr entries \<Rightarrow> Log (join_strings TAB (map fst entries))))"

definition explore_prompt :: string where
  "explore_prompt = ''Path to explore in package (blank to end): ''"

fun explore :: "env \<Rightarrow> string \<Rightarrow> unit io" where
  "explore env path ([], out) = (Blocked, ([], out @ [Prompt explore_prompt]))"
| "explore env path (pathInput # rest, out) =
     (if pathInput \<noteq> []
      then explore env path (rest, out @ [Prompt explore_prompt, explore_try env path pathInput])
      else (Return (), (rest, out @ [Prompt explore_prompt])))"

text \<open>\<open>const [basePath, globPattern] = globInput.split(' ', 2)\<close>: a piece that is not
  there is \<open>undefined\<close>.\<close>

definition piece :: "string list \<Rightarrow> nat \<Rightarrow> jsval" where
  "piece ps i = (if i < length ps then Str (ps ! i) else Undefined)"

text \<open>The \<open>try\<close> block of \<open>globExplore\<close>, with its \<open>catch\<close>.\<close>

definition globExplore_try :: "env \<Rightarrow> string \<Rightarrow> string \<Rightarrow> event" where
  "globExplore_try env path globInput =
     (let pieces = split_limit CHR '' '' 2 globInput;
          globPattern = piece pieces 1
      in case join_vals [Str path, piece pieces 0] of
           Inl e \<Rightarrow> ErrOf e Message
         | Inr dir \<Rightarrow>
             (case glob_files env globPattern dir of
                Inl e \<Rightarrow> ErrOf e Message
              | Inr found \<Rightarrow> Log (join_strings TAB found)))"

definition globExplore_prompt :: string where
  "globExplore_prompt = ''Glob to test in package [<basePath> <globPattern>] (blank to end): ''"

fun globExplore :: "env \<Rightarrow> string \<Rightarrow> unit io" where
  "globExplore env path ([], out) = (Blocked, ([], out @ [Prompt globExplore_prompt]))"
| "globExplore env path (globInput # rest, out) =
     (if globInput \<noteq> []
      then globExplore env path
             (rest, out @ [Prompt globExplore_prompt, globExplore_try env path globInput])
      else (Return (), (rest, out @ [Prompt globExplore_prompt])))"

section \<open>The file map\<close>

record fileMapItem =
  basePath :: string
  files :: "string list"

text \<open>
  \<open>allFileMapFiles\<close>: the two nested loops, with the array \<open>files\<close> they push to as an
  accumulator. A pattern whose \<open>glob\<close> throws leaves the array as it is.
\<close>

fun allFileMapFiles_patterns :: "env \<Rightarrow> string \<Rightarrow> string \<Rightarrow> string list \<Rightarrow> string list \<Rightarrow> string list" where
  "allFileMapFiles_patterns env path base [] acc = acc"
| "allFileMapFiles_patterns env path base (file # rest) acc =
     allFileMapFiles_patterns env path base rest
       (case glob_files env (Str file) (join [path, base]) of
          Inl e \<Rightarrow> acc
        | Inr found \<Rightarrow> acc @ found)"

fun allFileMapFiles_maps :: "env \<Rightarrow> string \<Rightarrow> fileMapItem list \<Rightarrow> string list \<Rightarrow> string list" where
  "allFileMapFiles_maps env path [] acc = acc"
| "allFileMapFiles_maps env path (m # rest) acc =
     allFileMapFiles_maps env path rest
       (allFileMapFiles_patterns env path (basePath m) (files m) acc)"

definition allFileMapFiles :: "env \<Rightarrow> string \<Rightarrow> fileMapItem list \<Rightarrow> string list" where
  "allFileMapFiles env path fileMap = allFileMapFiles_maps env path fileMap []"

definition basePath_prompt :: string where
  "basePath_prompt = ''Base path to use in file map (blank to end): ''"

definition pattern_prompt :: "string \<Rightarrow> string" where
  "pattern_prompt base = ''Glob pattern to get from base path '' @ base @ '' (blank to end): ''"

definition no_fileMap_error :: string where
  "no_fileMap_error = ''At least one file map is required for a library to auto-update''"

definition no_pattern_error :: string where
  "no_pattern_error = ''At least one glob pattern is required for a base path in the file map''"

text \<open>The entry that \<open>exploreAndGlob\<close> stores for a base path and its patterns.\<close>

definition stored_item :: "env \<Rightarrow> string \<Rightarrow> string list \<Rightarrow> fileMapItem" where
  "stored_item env base patterns =
     \<lparr> basePath = (if resolve (cwd env) base = resolve (cwd env) (dirname env) then [] else base),
       files = patterns \<rparr>"

text \<open>
  The two nested \<open>while (true)\<close> loops of \<open>exploreAndGlob\<close>. \<open>fileMap_loop\<close> is one
  turn of the outer loop, with the entries stored so far; \<open>patterns_loop\<close> is one turn
  of the inner loop, for the base path \<open>base\<close> and the patterns given so far. When the
  inner loop breaks, the entry is stored and the outer loop turns again.
\<close>

fun fileMap_loop :: "env \<Rightarrow> fileMapItem list \<Rightarrow> fileMapItem list io"
  and patterns_loop :: "env \<Rightarrow> fileMapItem list \<Rightarrow> string \<Rightarrow> string list \<Rightarrow> fileMapItem list io"
where
  "fileMap_loop env fileMap ([], out) = (Blocked, ([], out @ [Prompt basePath_prompt]))"
| "fileMap_loop env fileMap (base # rest, out) =
     (if base = [] then
        (if fileMap = []
         then fileMap_loop env fileMap (rest, out @ [Prompt basePath_prompt, Err no_fileMap_error])
         else (Return fileMap, (rest, out @ [Prompt basePath_prompt])))
      else patterns_loop env fileMap base [] (rest, out @ [Prompt basePath_prompt]))"
| "patterns_loop env fileMap base patterns ([], out) =
     (Blocked, ([], out @ [Prompt (pattern_prompt base)]))"
| "patterns_loop env fileMap base patterns (globInput # rest, out) =
     (if globInput = [] then
        (if patterns = []
         then patterns_loop env fileMap base patterns
                (rest, out @ [Prompt (pattern_prompt base), Err no_pattern_error])
         else fileMap_loop env (fileMap @ [stored_item env base patterns])
                (rest, out @ [Prompt (pattern_prompt base)]))
      else patterns_loop env fileMap base (patterns @ [globInput])
             (rest, out @ [Prompt (pattern_prompt base)]))"

definition fileMap_heading :: string where
  "fileMap_heading = NL @ ''File map(s) to use for auto-updating library...''"

definition exploreAndGlob :: "env \<Rightarrow> string \<Rightarrow> fileMapItem list io" where
  "exploreAndGlob env path =
     bind_io (explore env path) (\<lambda>_.
     bind_io (globExplore env path) (\<lambda>_.
     bind_io (emit (Log fileMap_heading)) (\<lambda>_.
       fileMap_loop env [])))"

text \<open>\<open>chooseDefault\<close>; the version is the value of the registry's \<open>latest\<close> tag.\<close>

definition chooseDefault :: "env \<Rightarrow> string \<Rightarrow> fileMapItem list \<Rightarrow> jsval \<Rightarrow> string io" where
  "chooseDefault env path fileMap version =
     bind_io (emit (Log (NL @ ''Files matching file map in '' @ to_string version @ '':'' @ NL
                          @ join_strings TAB (allFileMapFiles env path fileMap)))) (\<lambda>_.
       input ''Default file to highlight for usage (blank to skip): '')"

text \<open>\<open>getFirstDirectory\<close>: the name of the first entry that is a directory, or
  \<open>undefined\<close> when there is none.\<close>

definition getFirstDirectory :: "env \<Rightarrow> string \<Rightarrow> error + jsval" where
  "getFirstDirectory env path =
     bind_err (readdir env path) (\<lambda>entries.
       Inr (case map fst (filter snd entries) of [] \<Rightarrow> Undefined | d # ds \<Rightarrow> Str d))"

section \<open>Serialization\<close>

text \<open>\<open>JSON.stringify(v, null, 2)\<close>: the text of a value at the indentation \<open>ind\<close>,
  or nothing for \<open>undefined\<close>. In an array \<open>undefined\<close> is written \<open>null\<close>; in an
  object a property that is \<open>undefined\<close> is left out.\<close>

definition hex_char :: "nat \<Rightarrow> char" where
  "hex_char n = (if n < 10 then char_of (48 + n) else char_of (87 + n))"

definition quote_char :: "char \<Rightarrow> string" where
  "quote_char c =
     (let n = (of_char c :: nat)
      in if n = 8 then [CHR 0x5C, CHR ''b'']
         else if n = 9 then [CHR 0x5C, CHR ''t'']
         else if n = 10 then [CHR 0x5C, CHR ''n'']
         else if n = 12 then [CHR 0x5C, CHR ''f'']
         else if n = 13 then [CHR 0x5C, CHR ''r'']
         else if n = 34 then [CHR 0x5C, CHR 0x22]
         else if n = 92 then [CHR 0x5C, CHR 0x5C]
         else if n < 32 then [CHR 0x5C, CHR ''u'', CHR ''0'', CHR ''0'', hex_char (n div 16), hex_char (n mod 16)]
         else [c])"

definition quote :: "string \<Rightarrow> string" where
  "quote s = CHR 0x22 # concat (map quote_char s) @ [CHR 0x22]"

definition gap :: string where
  "gap = ''  ''"

definition bracketed :: "string \<Rightarrow> string \<Rightarrow> string \<Rightarrow> string list \<Rightarrow> string" where
  "bracketed l r ind items =
     (if items = [] then l @ r
      else l @ NL @ ind @ gap @ join_strings ('','' @ NL @ ind @ gap) items @ NL @ ind @ r)"

fun stringify :: "string \<Rightarrow> jsval \<Rightarrow> string option"
  and stringify_elements :: "string \<Rightarrow> jsval list \<Rightarrow> string list"
  and stringify_members :: "string \<Rightarrow> (string \<times> jsval) list \<Rightarrow> string list"
where
  "stringify ind Undefined = None"
| "stringify ind Null = Some ''null''"
| "stringify ind (Bool b) = Some (if b then ''true'' else ''false'')"
| "stringify ind (Num n) = Some (int_to_string n)"
| "stringify ind (Str s) = Some (quote s)"
| "stringify ind (Arr xs) = Some (bracketed ''['' '']'' ind (stringify_elements (ind @ gap) xs))"
| "stringify ind (Obj kvs) = Some (bracketed ''{'' ''}'' ind (stringify_members (ind @ gap) kvs))"
| "stringify_elements ind [] = []"
| "stringify_elements ind (x # xs) =
     (case stringify ind x of None \<Rightarrow> ''null'' | Some t \<Rightarrow> t) # stringify_elements ind xs"
| "stringify_members ind [] = []"
| "stringify_members ind ((k, v) # kvs) =
     (case stringify ind v of
        None \<Rightarrow> stringify_members ind kvs
      | Some t \<Rightarrow> (quote k @ '': '' @ t) # stringify_members ind kvs)"

text \<open>The template literal \<open>${JSON.stringify(v, null, 2)}\<close>\<close>

definition stringify_text :: "jsval \<Rightarrow> string" where
  "stringify_text v = (case stringify [] v of None \<Rightarrow> ''undefined'' | Some t \<Rightarrow> t)"

section \<open>The registry variant\<close>

text \<open>\<open>jsonData.versions[jsonData['dist-tags'].latest]\<close>, with the tag it reads.\<close>

definition latest_version :: "jsval \<Rightarrow> error + jsval \<times> jsval" where
  "latest_version jsonData =
     bind_err (get_prop jsonData ''versions'') (\<lambda>versions.
     bind_err (get_prop jsonData ''dist-tags'') (\<lambda>dist_tags.
     bind_err (get_prop dist_tags ''latest'') (\<lambda>latest.
     bind_err (get_prop versions (to_string latest)) (\<lambda>jsonVersionData.
       Inr (latest, jsonVersionData)))))"

text \<open>\<open>const jsonFullData = { ...jsonVersionData, ...jsonData }\<close>\<close>

definition jsonFullData :: "jsval \<Rightarrow> jsval \<Rightarrow> (string \<times> jsval) list" where
  "jsonFullData jsonVersionData jsonData = spread2 jsonVersionData jsonData"

text \<open>The block "Store basic info" of \<open>npm\<close>.\<close>

definition store_basic_info :: "(string \<times> jsval) list \<Rightarrow> (string \<times> jsval) list \<Rightarrow> (string \<times> jsval) list" where
  "store_basic_info full cdnjsData =
     (let d1 = obj_set cdnjsData ''description'' (js_or (lookup full ''description'') (Str []));
          d2 = obj_set d1 ''keywords'' (js_or (lookup full ''keywords'') (Arr []));
          d3 = obj_set d2 ''license'' (js_or (lookup full ''license'') (Str []));
          d4 = obj_set d3 ''homepage'' (js_or (lookup full ''homepage'') (Str []))
      in obj_set d4 ''repository'' (js_or (lookup full ''repository'') (Obj [])))"

text \<open>The array that \<open>npm\<close> hands to \<open>transformAuthors\<close>.\<close>

definition raw_authors :: "(string \<times> jsval) list \<Rightarrow> jsval list" where
  "raw_authors full =
     lookup full ''author'' # (case lookup full ''authors'' of Arr xs \<Rightarrow> xs | v \<Rightarrow> [v])"

definition fileMap_val :: "fileMapItem list \<Rightarrow> jsval" where
  "fileMap_val fileMap =
     Arr (map (\<lambda>m. Obj [(''basePath'', Str (basePath m)), (''files'', Arr (map Str (files m)))]) fileMap)"

text \<open>\<open>npm\<close> from the download on: the archive, the exploration, the file map, the
  default file and the cleanup.\<close>

definition npm_download :: "env \<Rightarrow> (string \<times> jsval) list \<Rightarrow> jsval \<Rightarrow> jsval \<Rightarrow> jsval \<Rightarrow> jsval io" where
  "npm_download env cdnjsData jsonData latest jsonVersionData =
     bind_io (lift_io (get_prop jsonData ''name'')) (\<lambda>jsonData_name.
     bind_io (lift_io (join_vals [Str (dirname env), Str ''temp'', jsonData_name, latest])) (\<lambda>tarPath.
     bind_io (lift_io (get_prop jsonVersionData ''dist'')) (\<lambda>dist.
     bind_io (lift_io (get_prop dist ''tarball'')) (\<lambda>tarball.
     bind_io (case download env tarball tarPath of
                Inl e \<Rightarrow> emit (ErrOf e MessageAndStack)
              | Inr u \<Rightarrow> return_io ()) (\<lambda>_.
     bind_io (lift_io (getFirstDirectory env tarPath)) (\<lambda>first.
     bind_io (lift_io (join_vals [Str tarPath, first])) (\<lambda>fullPath.
     bind_io (emit (Log (''Downloaded '' @ to_string jsonData_name @ ''@'' @ to_string latest
                          @ ''...'' @ NL))) (\<lambda>_.
     bind_io (exploreAndGlob env fullPath) (\<lambda>fileMap.
     bind_io (chooseDefault env fullPath fileMap latest) (\<lambda>defaultFile.
     bind_io (lift_io (rmdir env tarPath)) (\<lambda>_.
       return_io
         (Obj (let d = obj_set cdnjsData ''autoupdate''
                         (Obj [(''source'', Str ''npm''), (''target'', jsonData_name),
                               (''fileMap'', fileMap_val fileMap)])
               in if defaultFile \<noteq> [] then obj_set d ''filename'' (Str defaultFile) else d)))))))))))))"

text \<open>The question \<open>npm\<close> asks first, the package name it takes from the answer, and
  the address it fetches.\<close>

definition npm_prompt :: "(string \<times> jsval) list \<Rightarrow> string" where
  "npm_prompt cdnjsData =
     NL @ ''NPM package name (blank for '' @ to_string (lookup cdnjsData ''name'') @ ''): ''"

definition npmName :: "string \<Rightarrow> (string \<times> jsval) list \<Rightarrow> jsval" where
  "npmName resp cdnjsData = js_or (Str (trim resp)) (lookup cdnjsData ''name'')"

definition registry_url :: "jsval \<Rightarrow> string" where
  "registry_url name = ''https://registry.npmjs.com/'' @ to_string name"

definition located :: "jsval \<Rightarrow> jsval \<Rightarrow> string" where
  "located name latest = ''Located '' @ to_string name @ ''@'' @ to_string latest @ ''...''"

text \<open>\<open>npm\<close>: what it returns is the record, or \<open>undefined\<close> when it gives up.\<close>

definition npm :: "env \<Rightarrow> (string \<times> jsval) list \<Rightarrow> jsval io" where
  "npm env cdnjsData =
     bind_io (input (npm_prompt cdnjsData)) (\<lambda>resp.
     bind_io (lift_io (registry env (registry_url (npmName resp cdnjsData)))) (\<lambda>jsonData.
     bind_io (lift_io (get_prop jsonData ''error'')) (\<lambda>err.
       if truthy err then bind_io (emit (Err (to_string err))) (\<lambda>_. return_io Undefined)
       else
         bind_io (lift_io (latest_version jsonData)) (\<lambda>(latest, jsonVersionData).
         bind_io (lift_io (get_prop jsonData ''name'')) (\<lambda>jsonData_name.
         bind_io (emit (Log (located jsonData_name latest))) (\<lambda>_.
         bind_io (lift_io (transformAuthors (raw_authors (jsonFullData jsonVersionData jsonData)))) (\<lambda>authors.
           npm_download env
             (obj_set (store_basic_info (jsonFullData jsonVersionData jsonData) cdnjsData)
                ''authors'' (Arr authors))
             jsonData latest jsonVersionData)))))))"

section \<open>Publishing\<close>

text \<open>\<open>v.slice(0, 1).toLowerCase()\<close>: only a string has both methods.\<close>

definition first_lower :: "jsval \<Rightarrow> error + string" where
  "first_lower v = (case v of Str s \<Rightarrow> Inr (toLowerCase (take 1 s)) | _ \<Rightarrow> Inl TypeError)"

text \<open>The argument that \<open>createPR\<close> builds for the pull-request call.\<close>

definition createPR_request :: "env \<Rightarrow> jsval \<Rightarrow> string \<Rightarrow> error + pr_request" where
  "createPR_request env data body =
     bind_err (get_prop data ''name'') (\<lambda>data_name.
     bind_err (get_prop data ''autoupdate'') (\<lambda>autoupdate.
     bind_err (get_prop autoupdate ''source'') (\<lambda>source.
     bind_err (first_lower data_name) (\<lambda>initial.
     bind_err (get_prop autoupdate ''target'') (\<lambda>target.
       Inr \<lparr> pr_owner = targetRepoOwner env,
             pr_repo = targetRepoName env,
             pr_title = ''Add '' @ to_string data_name @ '' w/ '' @ to_string source @ '' auto-update'',
             pr_body = ''Adding '' @ to_string data_name @ '' using '' @ to_string source
                       @ '' auto-update from '' @ to_string target @ ''.''
                       @ (if body \<noteq> [] then NL @ NL else []) @ body,
             pr_head = branchBase env @ to_string data_name,
             pr_files = [(''packages/'' @ initial @ ''/'' @ to_string data_name @ ''.json'',
                          stringify_text data @ NL)],
             pr_commit = ''Add '' @ to_string data_name @ '' w/ '' @ to_string source @ '' auto-update'' \<rparr>)))))"

definition createPR :: "env \<Rightarrow> jsval \<Rightarrow> string \<Rightarrow> error + jsval" where
  "createPR env data body = bind_err (createPR_request env data body) (createPullRequest env)"

definition choice_prompt :: string where
  "choice_prompt = ''1) Auto-update via NPM package'' @ NL
                   @ ''2) Auto-update via tagged GitHub repo'' @ NL
                   @ ''Auto-update method to use (1 or 2): ''"

definition choice_error :: string where
  "choice_error = ''Please select either '' @ [CHR 0x27] @ ''1'' @ [CHR 0x27] @ '' or ''
                  @ [CHR 0x27] @ ''2'' @ [CHR 0x27] @ '' for auto-update.''"

fun updateChoice :: "env \<Rightarrow> jsval io" where
  "updateChoice env ([], out) = (Blocked, ([], out @ [Prompt choice_prompt]))"
| "updateChoice env (choice # rest, out) =
     (if Number env (trim choice) = Num 1 \<or> Number env (trim choice) = Num 2
      then (Return (Number env (trim choice)), (rest, out @ [Prompt choice_prompt]))
      else updateChoice env (rest, out @ [Prompt choice_prompt, Err choice_error]))"

text \<open>The \<open>try\<close> block that ends \<open>main\<close>, with its \<open>catch\<close>.\<close>

definition publish :: "env \<Rightarrow> jsval \<Rightarrow> string \<Rightarrow> unit io" where
  "publish env cdnjsData resolves =
     bind_io (emit (Log (NL @ NL @ ''Attempting to automatically create PR...''))) (\<lambda>_.
       case bind_err (createPR env cdnjsData
                        (if resolves \<noteq> [] then ''Resolves '' @ resolves @ ''.'' else []))
              (\<lambda>pr. bind_err (get_prop pr ''data'') (\<lambda>pr_data. get_prop pr_data ''html_url'')) of
         Inr html_url \<Rightarrow>
           emit (Log (NL @ NL @ ''Created automatic PR: '' @ to_string html_url))
       | Inl e \<Rightarrow>
           bind_io (emit (Err (NL @ NL @ ''Failed to create automatic PR''))) (\<lambda>_.
           bind_io (emit (ErrOf e Whole)) (\<lambda>_.
           bind_io (emit (ErrOf e Message)) (\<lambda>_.
           bind_io (emit (ErrOf e Status)) (\<lambda>_.
           bind_io (lift_io (get_prop cdnjsData ''name'')) (\<lambda>cdnjsData_name.
           bind_io (lift_io (first_lower cdnjsData_name)) (\<lambda>initial.
           bind_io (emit (Log (NL @ NL @ ''Create new file on cdnjs/packages: ''
                                @ ''packages/'' @ initial @ ''/'' @ to_string cdnjsData_name @ ''.json''))) (\<lambda>_.
             emit (Log (stringify_text cdnjsData))))))))))"

definition usage :: string where
  "usage = ''Usage: node index.js <cdnjsLibraryName>''"

definition main :: "env \<Rightarrow> string list \<Rightarrow> unit io" where
  "main env argv =
     (if \<not> truthy (piece argv 2) then emit (Err usage)
      else
        bind_io (updateChoice env) (\<lambda>updateMethod.
        bind_io (if updateMethod = Num 1 then npm env [(''name'', piece argv 2)]
                 else if updateMethod = Num 2 then github env [(''name'', piece argv 2)]
                 else return_io Undefined) (\<lambda>cdnjsData.
          if \<not> truthy cdnjsData then return_io ()
          else
            bind_io (input ''Issue this PR resolves (blank to skip): '') (\<lambda>resolves.
              publish env cdnjsData resolves))))"

section \<open>A sample environment\<close>

text \<open>
  An environment to run the definitions on. The program lives in \<open>/app\<close> and is started
  there. The registry knows three packages: \<open>pkg\<close>, which has a description at both
  levels and a license in its latest version only; \<open>broken\<close>, whose latest version
  document holds an \<open>error\<close> field; and \<open>quiet\<close>, whose package document holds an
  \<open>error\<close> field that is the empty string.
  Every other name gets a document with the error \<open>Not found\<close>. An extracted archive has
  the one directory \<open>package\<close>. In \<open>/pkg/src\<close> the patterns \<open>*.js\<close> and \<open>a.*\<close>
  match the file \<open>a.js\<close>; the pattern \<open>[unclosed\<close> makes \<open>glob\<close> throw. The
  pull-request call fails.
\<close>

definition sample_dist :: "string \<times> jsval" where
  "sample_dist = (''dist'', Obj [(''tarball'', Str ''https://registry.npmjs.com/t.tgz'')])"

definition pkg_version :: jsval where
  "pkg_version = Obj [(''description'', Str ''version text''), (''license'', Str ''MIT''), sample_dist]"

definition pkg_document :: "(string \<times> jsval) list" where
  "pkg_document =
     [(''name'', Str ''pkg''), (''description'', Str ''package text''),
      (''dist-tags'', Obj [(''latest'', Str ''1.0.0'')]),
      (''versions'', Obj [(''1.0.0'', pkg_version)])]"

definition broken_version :: jsval where
  "broken_version = Obj [(''error'', Str ''version not found''), sample_dist]"

definition broken_document :: "(string \<times> jsval) list" where
  "broken_document =
     [(''name'', Str ''broken''),
      (''dist-tags'', Obj [(''latest'', Str ''1.0.0'')]),
      (''versions'', Obj [(''1.0.0'', broken_version)])]"

definition quiet_document :: "(string \<times> jsval) list" where
  "quiet_document =
     [(''name'', Str ''quiet''), (''error'', Str []),
      (''dist-tags'', Obj [(''latest'', Str ''1.0.0'')]),
      (''versions'', Obj [(''1.0.0'', Obj [sample_dist])])]"

definition sample_registry :: "string \<Rightarrow> error + jsval" where
  "sample_registry url =
     (if url = ''https://registry.npmjs.com/pkg'' then Inr (Obj pkg_document)
      else if url = ''https://registry.npmjs.com/broken'' then Inr (Obj broken_document)
      else if url = ''https://registry.npmjs.com/quiet'' then Inr (Obj quiet_document)
      else Inr (Obj [(''error'', Str ''Not found'')]))"

definition sample_glob :: "jsval \<Rightarrow> glob_options \<Rightarrow> error + string list" where
  "sample_glob pattern options =
     (if pattern = Str ''[unclosed'' then Inl (Failure ''invalid pattern'')
      else if glob_cwd options = ''/pkg/src'' \<and> (pattern = Str ''*.js'' \<or> pattern = Str ''a.*'')
      then Inr [''a.js'']
      else Inr [])"

definition sample_env :: env where
  "sample_env =
     \<lparr> dirname = ''/app'', cwd = ''/app'',
       targetRepoOwner = ''cdnjs'', targetRepoName = ''packages'', branchBase = ''add-'',
       glob = sample_glob,
       lstat_isFile = (\<lambda>p. Inr False),
       readFile = (\<lambda>p. Inl (Failure ''not a file'')),
       readdir = (\<lambda>p. Inr [(''package'', True)]),
       rmdir = (\<lambda>p. Inr ()),
       registry = sample_registry,
       download = (\<lambda>url dir. Inr ()),
       createPullRequest = (\<lambda>request. Inl (Failure ''Bad credentials'')),
       Number = (\<lambda>s. if s = ''1'' then Num 1 else if s = ''2'' then Num 2 else Undefined),
       github = (\<lambda>cdnjsData. return_io Undefined) \<rparr>"

text \<open>The same environment for a program that lives in \<open>/app\<close> and is started from
  \<open>/work\<close>.\<close>

definition away_env :: env where
  "away_env = sample_env \<lparr> cwd := ''/work'' \<rparr>"

text \<open>The same environment over a package that also holds the file
  \<open>/pkg/package.json\<close>: in \<open>/pkg/src\<close> the pattern \<open>../*.json\<close> matches it, and
  \<open>glob\<close> returns its path as seen from \<open>/pkg/src\<close>.\<close>

definition parent_glob :: "jsval \<Rightarrow> glob_options \<Rightarrow> error + string list" where
  "parent_glob pattern options =
     (if glob_cwd options = ''/pkg/src'' \<and> pattern = Str ''../*.json'' then Inr [''../package.json'']
      else sample_glob pattern options)"

definition parent_env :: env where
  "parent_env = sample_env \<lparr> glob := parent_glob \<rparr>"

text \<open>
  The lines of a user who takes the library name as the package name, explores nothing,
  tests no pattern, gives the base path \<open>src\<close> with the pattern \<open>*.js\<close> and picks
  \<open>a.js\<close> as the default file; and the record that \<open>npm\<close> then returns for a package,
  given its description and license.
\<close>

definition sample_lines :: "string list" where
  "sample_lines = [[], [], [], ''src'', ''*.js'', [], [], ''a.js'']"

definition sample_record :: "string \<Rightarrow> string \<Rightarrow> string \<Rightarrow> jsval" where
  "sample_record name description license =
     Obj [(''name'', Str name), (''description'', Str description),
          (''keywords'', Arr []), (''license'', Str license),
          (''homepage'', Str []), (''repository'', Obj []),
          (''authors'', Arr []),
          (''autoupdate'',
           Obj [(''source'', Str ''npm''), (''target'', Str name),
                (''fileMap'',
                 Arr [Obj [(''basePath'', Str ''src''), (''files'', Arr [Str ''*.js''])]])]),
          (''filename'', Str ''a.js'')]"

section \<open>Properties of author normalization\<close>

declare nat_to_string.simps [simp del]

lemma bind_err_Inr: "bind_err r f = Inr y \<Longrightarrow> \<exists>x. r = Inr x \<and> f x = Inr y"
  by (cases r) (simp_all add: bind_err_def)

lemma bind_err_Inl_simp [simp]: "bind_err (Inl e) f = Inl e"
  by (simp add: bind_err_def)

lemma bind_err_Inr_simp [simp]: "bind_err (Inr x) f = f x"
  by (simp add: bind_err_def)

text \<open>Every error of the author parser is a \<open>TypeError\<close>.\<close>

lemma get_prop_error: "get_prop v key = Inl e \<Longrightarrow> e = TypeError"
  by (cases v) simp_all

lemma match_group1_error: "match_group1 v rx = Inl e \<Longrightarrow> e = TypeError"
  by (auto simp: match_group1_def split: jsval.splits option.splits)

lemma slice_inner_error: "slice_inner g = Inl e \<Longrightarrow> e = TypeError"
  by (auto simp: slice_inner_def split: jsval.splits)

lemma bind_err_error:
  "bind_err r f = Inl e \<Longrightarrow> (\<And>e. r = Inl e \<Longrightarrow> e = TypeError)
     \<Longrightarrow> (\<And>x e. f x = Inl e \<Longrightarrow> e = TypeError) \<Longrightarrow> e = TypeError"
  by (cases r) auto

lemma transformAuthor_error: "transformAuthor a = Inl e \<Longrightarrow> e = TypeError"
  unfolding transformAuthor_def
  apply (erule bind_err_error)
   apply (auto split: jsval.splits dest: get_prop_error)[1]
  apply (erule bind_err_error, erule get_prop_error)
  apply (erule bind_err_error)
   apply (auto split: if_splits elim!: bind_err_error dest: match_group1_error slice_inner_error)[1]
  apply (erule bind_err_error, erule get_prop_error)
  apply (erule bind_err_error, erule get_prop_error)
  apply (erule bind_err_error)
   apply (auto split: if_splits elim!: bind_err_error dest: match_group1_error slice_inner_error)[1]
  apply (erule bind_err_error, erule match_group1_error)
  apply simp
  done

lemma map_err_error:
  "map_err f xs = Inl e \<Longrightarrow> (\<And>x e. f x = Inl e \<Longrightarrow> e = TypeError) \<Longrightarrow> e = TypeError"
  by (induction xs) (auto split: sum.splits)

lemma map_err_Inr_mem:
  "map_err f xs = Inr ys \<Longrightarrow> x \<in> set xs \<Longrightarrow> \<exists>y. f x = Inr y"
  by (induction xs arbitrary: ys) (auto split: sum.splits)

lemma map_err_Inr_result:
  "map_err f xs = Inr ys \<Longrightarrow> y \<in> set ys \<Longrightarrow> \<exists>x \<in> set xs. f x = Inr y"
  by (induction xs arbitrary: ys) (auto split: sum.splits)

text \<open>An author that is not a string and has no name: the last \<open>match\<close> is called on
  \<open>undefined\<close>, whatever the other fields are.\<close>

lemma transformAuthor_no_name:
  assumes "get_prop a ''name'' = Inr Undefined" and "\<forall>s. a \<noteq> Str s"
  shows "transformAuthor a = Inl TypeError"
proof (cases "transformAuthor a")
  case (Inl e)
  then show ?thesis using transformAuthor_error by blast
next
  case (Inr r)
  from assms have name: "(case a of Str s \<Rightarrow> Inr (Str s) | _ \<Rightarrow> get_prop a ''name'') = Inr Undefined"
    by (cases a) auto
  from Inr show ?thesis
    unfolding transformAuthor_def name
    by (auto dest!: bind_err_Inr simp: match_group1_def)
qed

lemma transformAuthor_shape:
  "transformAuthor a = Inr r \<Longrightarrow>
     \<exists>n e u. r = Obj (filter (\<lambda>(key, v). truthy v) [(''name'', n), (''email'', e), (''url'', u)])"
  unfolding transformAuthor_def
  by (auto dest!: bind_err_Inr simp del: filter.simps)

lemma filter_truthy_undefined:
  "filter truthy (filter (\<lambda>a. a \<noteq> Undefined) xs) = filter truthy xs"
  by (induction xs) auto

lemma transformAuthors_string_example:
  "transformAuthors [Str ''Jane Doe <jane@x.com> (https://x.com)''] =
     Inr [Obj [(''name'', Str ''Jane Doe''), (''email'', Str ''jane@x.com''),
               (''url'', Str ''https://x.com'')]]"
  by code_simp

lemma transformAuthors_object_example:
  "transformAuthors [Obj [(''name'', Str ''Jane'')]] = Inr [Obj [(''name'', Str ''Jane'')]]"
  by code_simp

text \<open>
  C5. Author normalization maps the string \<open>Jane Doe <jane@x.com> (https://x.com)\<close> to
  the object with the name \<open>Jane Doe\<close>, the email \<open>jane@x.com\<close> and the url
  \<open>https://x.com\<close>, and the object with only the name \<open>Jane\<close> to itself, with no
  email and no url key. The result for a list is the result for the list without its
  \<open>undefined\<close> entries. Whenever a list of authors is returned, each author in it is
  an object made of the three properties name, email and url from which every falsy
  one has been removed, so no property it holds is empty or \<open>undefined\<close>.
\<close>

theorem transformAuthors_normalizes:
  "transformAuthors [Str ''Jane Doe <jane@x.com> (https://x.com)''] =
     Inr [Obj [(''name'', Str ''Jane Doe''), (''email'', Str ''jane@x.com''),
               (''url'', Str ''https://x.com'')]]
   \<and> transformAuthors [Obj [(''name'', Str ''Jane'')]] = Inr [Obj [(''name'', Str ''Jane'')]]
   \<and> transformAuthors authors = transformAuthors (filter (\<lambda>a. a \<noteq> Undefined) authors)
   \<and> (transformAuthors authors = Inr result \<longrightarrow>
        (\<forall>a \<in> set result.
           \<exists>n e u fields.
             fields = filter (\<lambda>(key, v). truthy v) [(''name'', n), (''email'', e), (''url'', u)]
             \<and> a = Obj fields
             \<and> (\<forall>kv \<in> set fields. truthy (snd kv) \<and> snd kv \<noteq> Str [] \<and> snd kv \<noteq> Undefined)))"
proof (intro conjI impI ballI)
  show "transformAuthors authors = transformAuthors (filter (\<lambda>a. a \<noteq> Undefined) authors)"
    by (simp only: transformAuthors_def filter_truthy_undefined)
next
  fix a
  assume run: "transformAuthors authors = Inr result" and a: "a \<in> set result"
  then obtain x where "transformAuthor x = Inr a"
    unfolding transformAuthors_def
    using map_err_Inr_result [of transformAuthor "filter truthy authors" result a] by blast
  then obtain n e u where
    shape: "a = Obj (filter (\<lambda>(key, v). truthy v) [(''name'', n), (''email'', e), (''url'', u)])"
    using transformAuthor_shape by blast
  have "\<forall>kv \<in> set (filter (\<lambda>(key, v). truthy v) [(''name'', n), (''email'', e), (''url'', u)]).
          truthy (snd kv) \<and> snd kv \<noteq> Str [] \<and> snd kv \<noteq> Undefined"
    by auto
  with shape show "\<exists>n e u fields.
      fields = filter (\<lambda>(key, v). truthy v) [(''name'', n), (''email'', e), (''url'', u)]
      \<and> a = Obj fields
      \<and> (\<forall>kv \<in> set fields. truthy (snd kv) \<and> snd kv \<noteq> Str [] \<and> snd kv \<noteq> Undefined)"
    by blast
qed (rule transformAuthors_string_example transformAuthors_object_example)+

theorem transformAuthors_normalizes_witness:
  "transformAuthors [Undefined, Obj [(''name'', Str ''Jane''), (''email'', Str [])], Undefined]
     = Inr [Obj [(''name'', Str ''Jane'')]]
   \<and> (\<exists>n e u. Obj [(''name'', Str ''Jane'')]
        = Obj (filter (\<lambda>(key, v). truthy v) [(''name'', n), (''email'', e), (''url'', u)]))"
proof -
  have run: "transformAuthors [Undefined, Obj [(''name'', Str ''Jane''), (''email'', Str [])], Undefined]
               = Inr [Obj [(''name'', Str ''Jane'')]]"
    by code_simp
  from transformAuthors_normalizes
         [of "[Undefined, Obj [(''name'', Str ''Jane''), (''email'', Str [])], Undefined]"
             "[Obj [(''name'', Str ''Jane'')]]"] run
  have "\<exists>n e u. Obj [(''name'', Str ''Jane'')]
          = Obj (filter (\<lambda>(key, v). truthy v) [(''name'', n), (''email'', e), (''url'', u)])"
    by (auto simp del: filter.simps)
  with run show ?thesis by blast
qed

text \<open>
  C9. Author normalization is not total: when the list holds a truthy entry that is not
  a string and whose \<open>name\<close> is \<open>undefined\<close> (an object without a name, whatever its
  email and url), \<open>transformAuthors\<close> throws a \<open>TypeError\<close> and returns no list.
\<close>

theorem transformAuthors_throws_without_name:
  assumes "a \<in> set authors" and "truthy a" and "\<forall>s. a \<noteq> Str s"
    and "get_prop a ''name'' = Inr Undefined"
  shows "transformAuthors authors = Inl TypeError"
proof (cases "transformAuthors authors")
  case (Inl e)
  then show ?thesis
    unfolding transformAuthors_def using map_err_error transformAuthor_error by blast
next
  case (Inr ys)
  from assms have "a \<in> set (filter truthy authors)" by simp
  with Inr obtain y where "transformAuthor a = Inr y"
    unfolding transformAuthors_def
    using map_err_Inr_mem [of transformAuthor "filter truthy authors" ys a] by blast
  with transformAuthor_no_name [OF assms(4,3)] show ?thesis by simp
qed

theorem transformAuthors_throws_without_name_witness:
  "transformAuthors
     [Str ''Ann'', Obj [(''email'', Str ''bob@x.com''), (''url'', Str ''https://x.com'')]]
   = Inl TypeError"
  using transformAuthors_throws_without_name
          [of "Obj [(''email'', Str ''bob@x.com''), (''url'', Str ''https://x.com'')]"
              "[Str ''Ann'', Obj [(''email'', Str ''bob@x.com''), (''url'', Str ''https://x.com'')]]"]
  by simp

section \<open>Properties of the file-map matcher\<close>

lemma allFileMapFiles_patterns_concat:
  "allFileMapFiles_patterns env path base patterns acc =
     acc @ concat (map (\<lambda>pattern. case glob_files env (Str pattern) (join [path, base]) of
                                     Inl e \<Rightarrow> [] | Inr found \<Rightarrow> found) patterns)"
  by (induction patterns arbitrary: acc) (auto split: sum.splits)

lemma allFileMapFiles_maps_concat:
  "allFileMapFiles_maps env path fileMap acc =
     acc @ concat (map (\<lambda>m. concat (map (\<lambda>pattern.
                     case glob_files env (Str pattern) (join [path, basePath m]) of
                       Inl e \<Rightarrow> [] | Inr found \<Rightarrow> found) (files m))) fileMap)"
  by (induction fileMap arbitrary: acc) (auto simp: allFileMapFiles_patterns_concat)

lemma allFileMapFiles_concat:
  "allFileMapFiles env path fileMap =
     concat (map (\<lambda>m. concat (map (\<lambda>pattern.
                     case glob_files env (Str pattern) (join [path, basePath m]) of
                       Inl e \<Rightarrow> [] | Inr found \<Rightarrow> found) (files m))) fileMap)"
  by (simp add: allFileMapFiles_def allFileMapFiles_maps_concat)

lemma concat_map_case_filter:
  "concat (map (\<lambda>x. case g x of Inl e \<Rightarrow> [] | Inr ys \<Rightarrow> ys) xs) =
     concat (map (\<lambda>x. projr (g x)) (filter (\<lambda>x. \<not> isl (g x)) xs))"
  by (induction xs) (auto split: sum.splits)




text \<open>
  C7. In the matcher a pattern whose \<open>glob\<close> throws adds no path and stops nothing: the
  matcher returns a list, which is the concatenation of the matches of the patterns
  whose \<open>glob\<close> does not throw, over all entries in order. When the \<open>glob\<close> of a pattern
  of one entry throws, the result is what it would be without that pattern.
\<close>

theorem allFileMapFiles_swallows_errors:
  "allFileMapFiles env path fileMap =
     concat (map (\<lambda>m. concat (map (\<lambda>pattern. projr (glob_files env (Str pattern) (join [path, basePath m])))
                     (filter (\<lambda>pattern. \<not> isl (glob_files env (Str pattern) (join [path, basePath m])))
                        (files m)))) fileMap)
   \<and> (glob_files env (Str bad) (join [path, basePath m]) = Inl e \<longrightarrow>
        allFileMapFiles env path (before @ m\<lparr>files := ps @ bad # qs\<rparr> # rest)
          = allFileMapFiles env path (before @ m\<lparr>files := ps @ qs\<rparr> # rest))"
  by (simp add: allFileMapFiles_concat concat_map_case_filter)

theorem allFileMapFiles_swallows_errors_witness:
  "glob_files sample_env (Str ''[unclosed'') (join [''/pkg'', ''dist''])
     = Inl (Failure ''invalid pattern'')
   \<and> allFileMapFiles sample_env ''/pkg''
        [\<lparr>basePath = ''dist'', files = [''[unclosed'']\<rparr>, \<lparr>basePath = ''src'', files = [''*.js'']\<rparr>]
      = allFileMapFiles sample_env ''/pkg''
        [\<lparr>basePath = ''dist'', files = []\<rparr>, \<lparr>basePath = ''src'', files = [''*.js'']\<rparr>]
   \<and> allFileMapFiles sample_env ''/pkg''
        [\<lparr>basePath = ''dist'', files = [''[unclosed'']\<rparr>, \<lparr>basePath = ''src'', files = [''*.js'']\<rparr>]
      = [''a.js'']"
proof -
  have bad: "glob_files sample_env (Str ''[unclosed'') (join [''/pkg'', basePath \<lparr>basePath = ''dist'', files = []\<rparr>])
               = Inl (Failure ''invalid pattern'')"
    by (simp add: glob_files_def sample_env_def sample_glob_def)
  have run: "allFileMapFiles sample_env ''/pkg''
               [\<lparr>basePath = ''dist'', files = []\<rparr>, \<lparr>basePath = ''src'', files = [''*.js'']\<rparr>]
             = [''a.js'']"
    by code_simp
  from allFileMapFiles_swallows_errors
         [of sample_env "''/pkg''" _ "''[unclosed''" "\<lparr>basePath = ''dist'', files = []\<rparr>"
             "Failure ''invalid pattern''" "[]" "[]" "[]"
             "[\<lparr>basePath = ''src'', files = [''*.js'']\<rparr>]"] bad
  have same: "allFileMapFiles sample_env ''/pkg''
                [\<lparr>basePath = ''dist'', files = [''[unclosed'']\<rparr>, \<lparr>basePath = ''src'', files = [''*.js'']\<rparr>]
              = allFileMapFiles sample_env ''/pkg''
                [\<lparr>basePath = ''dist'', files = []\<rparr>, \<lparr>basePath = ''src'', files = [''*.js'']\<rparr>]"
    by simp
  from bad same run show ?thesis by simp
qed

section \<open>Properties of the file-map builder\<close>

lemma bind_io_Return:
  "bind_io m f w = (Return y, w') \<Longrightarrow> \<exists>x w1. m w = (Return x, w1) \<and> f x w1 = (Return y, w')"
  by (auto simp: bind_io_def split: prod.splits result.splits)

text \<open>
  The invariant of the two loops: every entry stored so far is the stored entry of a
  non-empty line of the input, with at least one pattern. What the loops return keeps
  it, and is not empty.
\<close>

lemma loops_stored:
  "set (fst w) \<subseteq> S \<longrightarrow>
   (\<forall>m \<in> set fileMap. \<exists>b \<in> S. b \<noteq> [] \<and> (\<exists>ps. ps \<noteq> [] \<and> m = stored_item env b ps)) \<longrightarrow>
   fileMap_loop env fileMap w = (Return r, w') \<longrightarrow>
   r \<noteq> [] \<and> (\<forall>m \<in> set r. \<exists>b \<in> S. b \<noteq> [] \<and> (\<exists>ps. ps \<noteq> [] \<and> m = stored_item env b ps))"
  "set (fst w) \<subseteq> S \<longrightarrow> base \<in> S \<longrightarrow> base \<noteq> [] \<longrightarrow>
   (\<forall>m \<in> set fileMap. \<exists>b \<in> S. b \<noteq> [] \<and> (\<exists>ps. ps \<noteq> [] \<and> m = stored_item env b ps)) \<longrightarrow>
   patterns_loop env fileMap base patterns w = (Return r, w') \<longrightarrow>
   r \<noteq> [] \<and> (\<forall>m \<in> set r. \<exists>b \<in> S. b \<noteq> [] \<and> (\<exists>ps. ps \<noteq> [] \<and> m = stored_item env b ps))"
proof (induction env fileMap w and env fileMap base patterns w
       rule: fileMap_loop_patterns_loop.induct)
  case (1 env fileMap out)
  show ?case by simp
next
  case (2 env fileMap base rest out)
  show ?case
  proof (intro impI)
    assume S: "set (fst (base # rest, out)) \<subseteq> S"
      and inv: "(\<forall>m \<in> set fileMap. \<exists>b \<in> S. b \<noteq> [] \<and> (\<exists>ps. ps \<noteq> [] \<and> m = stored_item env b ps))"
      and run: "fileMap_loop env fileMap (base # rest, out) = (Return r, w')"
    have S': "set (fst (rest, out @ [Prompt basePath_prompt])) \<subseteq> S"
      "set (fst (rest, out @ [Prompt basePath_prompt, Err no_fileMap_error])) \<subseteq> S"
      and b: "base \<in> S"
      using S by auto
    show "r \<noteq> [] \<and> (\<forall>m \<in> set r. \<exists>b \<in> S. b \<noteq> [] \<and> (\<exists>ps. ps \<noteq> [] \<and> m = stored_item env b ps))"
    proof (cases "base = []")
      case False
      with run
      have "patterns_loop env fileMap base [] (rest, out @ [Prompt basePath_prompt]) = (Return r, w')"
        by simp
      with "2.IH"(2) [OF False] S'(1) b False inv show ?thesis by blast
    next
      case True
      show ?thesis
      proof (cases "fileMap = []")
        case True
        with \<open>base = []\<close> run
        have "fileMap_loop env fileMap (rest, out @ [Prompt basePath_prompt, Err no_fileMap_error])
                = (Return r, w')"
          by simp
        with "2.IH"(1) [OF \<open>base = []\<close> True] S'(2) inv show ?thesis by blast
      next
        case False
        with \<open>base = []\<close> run have "r = fileMap" by simp
        with inv False show ?thesis by simp
      qed
    qed
  qed
next
  case (3 env fileMap base patterns out)
  show ?case by simp
next
  case (4 env fileMap base patterns globInput rest out)
  show ?case
  proof (intro impI)
    assume S: "set (fst (globInput # rest, out)) \<subseteq> S" and b: "base \<in> S" "base \<noteq> []"
      and inv: "(\<forall>m \<in> set fileMap. \<exists>b \<in> S. b \<noteq> [] \<and> (\<exists>ps. ps \<noteq> [] \<and> m = stored_item env b ps))"
      and run: "patterns_loop env fileMap base patterns (globInput # rest, out) = (Return r, w')"
    have S': "set (fst (rest, out @ [Prompt (pattern_prompt base)])) \<subseteq> S"
      "set (fst (rest, out @ [Prompt (pattern_prompt base), Err no_pattern_error])) \<subseteq> S"
      using S by auto
    show "r \<noteq> [] \<and> (\<forall>m \<in> set r. \<exists>b \<in> S. b \<noteq> [] \<and> (\<exists>ps. ps \<noteq> [] \<and> m = stored_item env b ps))"
    proof (cases "globInput = []")
      case False
      with run
      have "patterns_loop env fileMap base (patterns @ [globInput])
              (rest, out @ [Prompt (pattern_prompt base)]) = (Return r, w')"
        by simp
      with "4.IH"(3) [OF False] S'(1) b inv show ?thesis by blast
    next
      case True
      show ?thesis
      proof (cases "patterns = []")
        case True
        with \<open>globInput = []\<close> run
        have "patterns_loop env fileMap base patterns
                (rest, out @ [Prompt (pattern_prompt base), Err no_pattern_error]) = (Return r, w')"
          by simp
        with "4.IH"(1) [OF \<open>globInput = []\<close> True] S'(2) b inv show ?thesis by blast
      next
        case False
        with b inv
        have inv': "\<forall>m \<in> set (fileMap @ [stored_item env base patterns]).
                \<exists>b \<in> S. b \<noteq> [] \<and> (\<exists>ps. ps \<noteq> [] \<and> m = stored_item env b ps)"
          by auto
        from False \<open>globInput = []\<close> run
        have "fileMap_loop env (fileMap @ [stored_item env base patterns])
                (rest, out @ [Prompt (pattern_prompt base)]) = (Return r, w')"
          by simp
        with "4.IH"(2) [OF \<open>globInput = []\<close> False] S'(1) inv' show ?thesis by blast
      qed
    qed
  qed
qed

lemma explore_stdin: "explore env path w = (r, w') \<Longrightarrow> set (fst w') \<subseteq> set (fst w)"
  by (induction env path w rule: explore.induct) (auto split: if_splits)

lemma globExplore_stdin: "globExplore env path w = (r, w') \<Longrightarrow> set (fst w') \<subseteq> set (fst w)"
  by (induction env path w rule: globExplore.induct) (auto split: if_splits)

lemma exploreAndGlob_stored:
  assumes "exploreAndGlob env path w = (Return fileMap, w')"
  shows "fileMap \<noteq> []
         \<and> (\<forall>m \<in> set fileMap. \<exists>b \<in> set (fst w). b \<noteq> [] \<and> (\<exists>ps. ps \<noteq> [] \<and> m = stored_item env b ps))"
proof -
  from assms obtain w1 w2 w3 u1 u2 u3
    where e: "explore env path w = (Return u1, w1)"
      and g: "globExplore env path w1 = (Return u2, w2)"
      and h: "emit (Log fileMap_heading) w2 = (Return u3, w3)"
      and l: "fileMap_loop env [] w3 = (Return fileMap, w')"
    unfolding exploreAndGlob_def by (blast dest!: bind_io_Return)
  from h have "fst w3 = fst w2" by (auto simp: emit_def)
  with explore_stdin [OF e] globExplore_stdin [OF g] have "set (fst w3) \<subseteq> set (fst w)" by simp
  with loops_stored(1) [of w3 "set (fst w)" "[]" env fileMap w'] l show ?thesis by simp
qed

lemma exploreAndGlob_nonempty:
  assumes "exploreAndGlob env path w = (Return fileMap, w')"
  shows "fileMap \<noteq> [] \<and> (\<forall>m \<in> set fileMap. files m \<noteq> [])"
proof (intro conjI ballI)
  from exploreAndGlob_stored [OF assms] show "fileMap \<noteq> []" by blast
next
  fix m assume "m \<in> set fileMap"
  with exploreAndGlob_stored [OF assms] obtain b ps where "ps \<noteq> []" "m = stored_item env b ps"
    by blast
  then show "files m \<noteq> []" by (simp add: stored_item_def)
qed

lemma sample_builder_run:
  "exploreAndGlob sample_env ''/pkg''
     ([[], [], [], ''.'', [], ''*.js'', [], ''src'', ''a.*'', [], [], ''next''], [Log ''start''])
   = (Return [\<lparr>basePath = [], files = [''*.js'']\<rparr>, \<lparr>basePath = ''src'', files = [''a.*'']\<rparr>],
      ([''next''],
       [Log ''start'',
        Prompt explore_prompt,
        Prompt globExplore_prompt,
        Log fileMap_heading,
        Prompt basePath_prompt, Err no_fileMap_error,
        Prompt basePath_prompt,
        Prompt (pattern_prompt ''.''), Err no_pattern_error,
        Prompt (pattern_prompt ''.''),
        Prompt (pattern_prompt ''.''),
        Prompt basePath_prompt,
        Prompt (pattern_prompt ''src''),
        Prompt (pattern_prompt ''src''),
        Prompt basePath_prompt]))"
  by code_simp

text \<open>
  C4. Whenever the file-map builder returns, the list it returns is not empty and every
  entry in it has at least one pattern. An empty line at the base-path prompt ends the
  builder only when an entry has been stored; with none stored, the error is written
  and the prompt comes again. An empty line at the pattern prompt ends the patterns of
  the current base path only when there is a pattern; with none, the error is written
  and the prompt comes again.
\<close>

theorem exploreAndGlob_returns_nonempty:
  "(exploreAndGlob env path w = (Return fileMap, w')
      \<longrightarrow> fileMap \<noteq> [] \<and> (\<forall>m \<in> set fileMap. files m \<noteq> []))
   \<and> fileMap_loop env [] ([] # rest, out)
       = fileMap_loop env [] (rest, out @ [Prompt basePath_prompt, Err no_fileMap_error])
   \<and> (entries \<noteq> [] \<longrightarrow>
        fileMap_loop env entries ([] # rest, out)
          = (Return entries, (rest, out @ [Prompt basePath_prompt])))
   \<and> patterns_loop env entries base [] ([] # rest, out)
       = patterns_loop env entries base [] (rest, out @ [Prompt (pattern_prompt base), Err no_pattern_error])
   \<and> (patterns \<noteq> [] \<longrightarrow>
        patterns_loop env entries base patterns ([] # rest, out)
          = fileMap_loop env (entries @ [stored_item env base patterns])
              (rest, out @ [Prompt (pattern_prompt base)]))"
  using exploreAndGlob_nonempty [of env path w fileMap w'] by simp

theorem exploreAndGlob_returns_nonempty_witness:
  "fst (exploreAndGlob sample_env ''/pkg''
          ([[], [], [], ''.'', [], ''*.js'', [], ''src'', ''a.*'', [], [], ''next''], [Log ''start'']))
     = Return [\<lparr>basePath = [], files = [''*.js'']\<rparr>, \<lparr>basePath = ''src'', files = [''a.*'']\<rparr>]
   \<and> [\<lparr>basePath = [], files = [''*.js'']\<rparr>, \<lparr>basePath = ''src'', files = [''a.*'']\<rparr>] \<noteq> []
   \<and> list_all (\<lambda>m. files m \<noteq> [])
        [\<lparr>basePath = [], files = [''*.js'']\<rparr>, \<lparr>basePath = ''src'', files = [''a.*'']\<rparr>]
   \<and> fileMap_loop sample_env [] ([[]], [])
       = (Blocked, ([], [Prompt basePath_prompt, Err no_fileMap_error, Prompt basePath_prompt]))
   \<and> fileMap_loop sample_env [\<lparr>basePath = ''src'', files = [''a.*'']\<rparr>] ([[], ''next''], [])
       = (Return [\<lparr>basePath = ''src'', files = [''a.*'']\<rparr>], ([''next''], [Prompt basePath_prompt]))
   \<and> patterns_loop sample_env [] ''src'' [] ([[]], [])
       = (Blocked, ([], [Prompt (pattern_prompt ''src''), Err no_pattern_error,
                         Prompt (pattern_prompt ''src'')]))
   \<and> patterns_loop sample_env [] ''src'' [''a.*''] ([[], []], [])
       = (Return [stored_item sample_env ''src'' [''a.*'']],
          ([], [Prompt (pattern_prompt ''src''), Prompt basePath_prompt]))"
  using exploreAndGlob_returns_nonempty
          [where env = sample_env and path = "''/pkg''"
             and w = "([[], [], [], ''.'', [], ''*.js'', [], ''src'', ''a.*'', [], [], ''next''], [Log ''start''])"
             and fileMap = "[\<lparr>basePath = [], files = [''*.js'']\<rparr>, \<lparr>basePath = ''src'', files = [''a.*'']\<rparr>]"
             and entries = "[\<lparr>basePath = ''src'', files = [''a.*'']\<rparr>]"
             and base = "''src''" and patterns = "[''a.*'']" and rest = "[[]]" and out = "[]"]
  by (simp add: sample_builder_run)

text \<open>
  C8, as the code has it. The entry stored for a base path holds the empty string in
  place of the path exactly when the path, resolved against the current working
  directory of the process, is the directory that holds the program's script
  (\<open>__dirname\<close>); any other base path is stored as it was entered. When the program
  is started from that directory, it is the working directory, and the path is
  replaced exactly when it resolves to the working directory. Every entry of a file
  map that the builder returns is stored in this way for a non-empty line of the
  input.
\<close>

theorem stored_basePath_normalized:
  "basePath (stored_item env base patterns)
     = (if resolve (cwd env) base = resolve (cwd env) (dirname env) then [] else base)
   \<and> (base \<noteq> [] \<longrightarrow>
        (basePath (stored_item env base patterns) = []
           \<longleftrightarrow> resolve (cwd env) base = resolve (cwd env) (dirname env)))
   \<and> (dirname env = cwd env \<longrightarrow>
        basePath (stored_item env base patterns)
          = (if resolve (cwd env) base = resolve (cwd env) (cwd env) then [] else base))
   \<and> (patterns \<noteq> [] \<longrightarrow>
        patterns_loop env entries base patterns ([] # rest, out)
          = fileMap_loop env
              (entries @ [\<lparr> basePath = (if resolve (cwd env) base = resolve (cwd env) (dirname env)
                                          then [] else base),
                             files = patterns \<rparr>])
              (rest, out @ [Prompt (pattern_prompt base)]))
   \<and> (exploreAndGlob env path w = (Return fileMap, w') \<longrightarrow>
        (\<forall>m \<in> set fileMap. \<exists>b \<in> set (fst w).
           b \<noteq> []
           \<and> basePath m = (if resolve (cwd env) b = resolve (cwd env) (dirname env) then [] else b)))"
proof (intro conjI impI ballI)
  fix m
  assume "exploreAndGlob env path w = (Return fileMap, w')" and "m \<in> set fileMap"
  then obtain b ps where "b \<in> set (fst w)" "b \<noteq> []" "m = stored_item env b ps"
    using exploreAndGlob_stored [of env path w fileMap w'] by blast
  then show "\<exists>b \<in> set (fst w). b \<noteq> []
      \<and> basePath m = (if resolve (cwd env) b = resolve (cwd env) (dirname env) then [] else b)"
    by (auto simp: stored_item_def)
qed (auto simp: stored_item_def)

lemma sample_resolve:
  "resolve ''/app'' ''.'' = ''/app''" "resolve ''/app'' ''/app'' = ''/app''"
  "resolve ''/app'' ''src'' = ''/app/src''"
  by code_simp+

theorem stored_basePath_normalized_witness:
  "fst (exploreAndGlob sample_env ''/pkg''
          ([[], [], [], ''.'', [], ''*.js'', [], ''src'', ''a.*'', [], [], ''next''], [Log ''start'']))
     = Return [\<lparr>basePath = [], files = [''*.js'']\<rparr>, \<lparr>basePath = ''src'', files = [''a.*'']\<rparr>]
   \<and> resolve (cwd sample_env) ''.'' = resolve (cwd sample_env) (dirname sample_env)
   \<and> basePath (stored_item sample_env ''.'' [''*.js'']) = []
   \<and> resolve (cwd sample_env) ''src'' \<noteq> resolve (cwd sample_env) (dirname sample_env)
   \<and> basePath (stored_item sample_env ''src'' [''a.*'']) = ''src''"
proof -
  have dirs: "cwd sample_env = ''/app''" "dirname sample_env = ''/app''"
    by (simp_all add: sample_env_def)
  from stored_basePath_normalized [of sample_env "''.''" "[''*.js'']"]
  have dot: "basePath (stored_item sample_env ''.'' [''*.js'']) = []"
    by (simp add: dirs sample_resolve)
  from stored_basePath_normalized [of sample_env "''src''" "[''a.*'']"]
  have src: "basePath (stored_item sample_env ''src'' [''a.*'']) = ''src''"
    by (simp add: dirs sample_resolve)
  from dot src show ?thesis
    by (simp add: sample_builder_run dirs sample_resolve)
qed

text \<open>
  A program in \<open>/app\<close> that is started from \<open>/work\<close>: the base path \<open>.\<close> resolves
  to the working directory and is stored as it was entered, and the base path \<open>/app\<close>
  does not resolve to the working directory and is stored as the empty string.
\<close>

theorem basePath_kept_in_working_directory:
  "cwd away_env = ''/work'' \<and> dirname away_env = ''/app''
   \<and> resolve (cwd away_env) ''.'' = ''/work''
   \<and> basePath (stored_item away_env ''.'' [''*.js'']) = ''.''
   \<and> fst (exploreAndGlob away_env ''/pkg'' ([[], [], ''.'', ''*.js'', [], []], []))
       = Return [\<lparr>basePath = ''.'', files = [''*.js'']\<rparr>]
   \<and> resolve (cwd away_env) ''/app'' = ''/app''
   \<and> basePath (stored_item away_env ''/app'' [''*.js'']) = []
   \<and> fst (exploreAndGlob away_env ''/pkg'' ([[], [], ''/app'', ''*.js'', [], []], []))
       = Return [\<lparr>basePath = [], files = [''*.js'']\<rparr>]"
  by code_simp

section \<open>Properties of the glob test\<close>

lemma split_on_no_sep: "c \<notin> set s \<Longrightarrow> split_on c s = [s]"
  by (induction s) auto

lemma split_on_append: "c \<notin> set s \<Longrightarrow> split_on c (s @ c # t) = s # split_on c t"
  by (induction s) auto

lemma split_limit_three:
  "CHR '' '' \<notin> set base \<Longrightarrow> CHR '' '' \<notin> set pat \<Longrightarrow>
     split_limit CHR '' '' 2 (base @ CHR '' '' # pat @ CHR '' '' # rest) = [base, pat]"
  by (simp add: split_limit_def split_on_append numeral_2_eq_2)

lemma split_limit_two:
  "CHR '' '' \<notin> set base \<Longrightarrow> CHR '' '' \<notin> set pat \<Longrightarrow>
     split_limit CHR '' '' 2 (base @ CHR '' '' # pat) = [base, pat]"
  by (simp add: split_limit_def split_on_append split_on_no_sep numeral_2_eq_2)

lemma globExplore_try_three:
  "CHR '' '' \<notin> set base \<Longrightarrow> CHR '' '' \<notin> set pat \<Longrightarrow>
     globExplore_try env path (base @ CHR '' '' # pat @ CHR '' '' # rest) =
       (case glob_files env (Str pat) (join [path, base]) of
          Inl e \<Rightarrow> ErrOf e Message
        | Inr found \<Rightarrow> Log (join_strings TAB found))"
  by (simp add: globExplore_try_def split_limit_three piece_def join_vals_def Let_def)

lemma globExplore_try_two:
  "CHR '' '' \<notin> set base \<Longrightarrow> CHR '' '' \<notin> set pat \<Longrightarrow>
     globExplore_try env path (base @ CHR '' '' # pat) =
       (case glob_files env (Str pat) (join [path, base]) of
          Inl e \<Rightarrow> ErrOf e Message
        | Inr found \<Rightarrow> Log (join_strings TAB found))"
  by (simp add: globExplore_try_def split_limit_two piece_def join_vals_def Let_def)

text \<open>
  C10. In the glob test the line is split at its spaces and only the first two pieces
  are kept. For a line with a base path, a space, a second piece, a space and more
  text, the text after the second piece is dropped: the pattern tested is the second
  piece alone, in the base path, and what the test writes, and what the whole loop
  does, is what it writes and does for the line without the dropped text. Nothing
  tells the user that part of the line was dropped.
\<close>

theorem globExplore_drops_after_second_piece:
  assumes "CHR '' '' \<notin> set base" and "CHR '' '' \<notin> set pat"
  shows "split_limit CHR '' '' 2 (base @ '' '' @ pat @ '' '' @ rest) = [base, pat]
   \<and> globExplore_try env path (base @ '' '' @ pat @ '' '' @ rest) =
       (case glob_files env (Str pat) (join [path, base]) of
          Inl e \<Rightarrow> ErrOf e Message
        | Inr found \<Rightarrow> Log (join_strings TAB found))
   \<and> globExplore_try env path (base @ '' '' @ pat @ '' '' @ rest)
       = globExplore_try env path (base @ '' '' @ pat)
   \<and> globExplore env path ((base @ '' '' @ pat @ '' '' @ rest) # ins, out)
       = globExplore env path ((base @ '' '' @ pat) # ins, out)"
  using assms
  by (simp add: split_limit_three globExplore_try_three globExplore_try_two)

theorem globExplore_drops_after_second_piece_witness:
  "split_limit CHR '' '' 2 ''src a.* b.*'' = [''src'', ''a.*'']
   \<and> globExplore_try sample_env ''/pkg'' ''src a.* b.*'' = Log ''a.js''
   \<and> globExplore_try sample_env ''/pkg'' ''src a.* b.*'' = globExplore_try sample_env ''/pkg'' ''src a.*''"
proof -
  have no_space: "CHR '' '' \<notin> set ''src''" "CHR '' '' \<notin> set ''a.*''"
    by simp_all
  have run: "globExplore_try sample_env ''/pkg'' ''src a.*'' = Log ''a.js''"
    by code_simp
  from globExplore_drops_after_second_piece [OF no_space, of "''b.*''" sample_env "''/pkg''" "[]" "[]"]
  have pieces: "split_limit CHR '' '' 2 (''src'' @ '' '' @ ''a.*'' @ '' '' @ ''b.*'') = [''src'', ''a.*'']"
    and same: "globExplore_try sample_env ''/pkg'' (''src'' @ '' '' @ ''a.*'' @ '' '' @ ''b.*'')
                 = globExplore_try sample_env ''/pkg'' (''src'' @ '' '' @ ''a.*'')"
    by blast+
  from pieces same run show ?thesis by simp
qed

section \<open>Properties of the registry variant\<close>

lemma emit_bind [simp]: "bind_io (emit ev) f w = f () (fst w, snd w @ [ev])"
  by (simp add: bind_io_def emit_def)

lemma lift_bind_Inr [simp]: "bind_io (lift_io (Inr x)) f w = f x w"
  by (simp add: bind_io_def lift_io_def)

lemma lift_bind_Inl [simp]: "bind_io (lift_io (Inl e)) f w = (Throw e, w)"
  by (simp add: bind_io_def lift_io_def)

lemma input_bind [simp]: "bind_io (input q) f (resp # ins, out) = f resp (ins, out @ [Prompt q])"
  by (simp add: bind_io_def input_def)

lemma lookup_obj_set: "lookup (obj_set kvs k v) k' = (if k' = k then v else lookup kvs k')"
  by (induction kvs k v rule: obj_set.induct) (auto simp: lookup_def)

lemma lookup_foldl_set:
  "lookup (foldl (\<lambda>obj key. obj_set obj key (L key)) acc ks) k
     = (if k \<in> set ks then L k else lookup acc k)"
  by (induction ks arbitrary: acc) (auto simp: lookup_obj_set)

lemma lookup_spread_into:
  "lookup (spread_into acc v) k
     = (if k \<in> fst ` set (own_props v) then lookup (own_props v) k else lookup acc k)"
  by (simp add: spread_into_def lookup_foldl_set)

lemma lookup_absent: "k \<notin> fst ` set kvs \<Longrightarrow> lookup kvs k = Undefined"
  by (simp add: lookup_def map_of_eq_None_iff [THEN iffD2])

text \<open>In \<open>{...a, ...b}\<close> a key that \<open>b\<close> has takes the value of \<open>b\<close>.\<close>

lemma lookup_spread2:
  "lookup (spread2 a b) k
     = (if k \<in> fst ` set (own_props b) then lookup (own_props b) k else lookup (own_props a) k)"
  by (simp add: spread2_def lookup_spread_into lookup_absent)

lemma lookup_store_basic_info:
  "lookup (store_basic_info full d) ''description'' = js_or (lookup full ''description'') (Str [])"
  "lookup (store_basic_info full d) ''keywords'' = js_or (lookup full ''keywords'') (Arr [])"
  "lookup (store_basic_info full d) ''license'' = js_or (lookup full ''license'') (Str [])"
  "lookup (store_basic_info full d) ''homepage'' = js_or (lookup full ''homepage'') (Str [])"
  "lookup (store_basic_info full d) ''repository'' = js_or (lookup full ''repository'') (Obj [])"
  by (simp_all add: store_basic_info_def Let_def lookup_obj_set)

text \<open>The steps of \<open>npm\<close> from the download on change no property of the record but
  \<open>autoupdate\<close> and \<open>filename\<close>.\<close>

lemma npm_download_record:
  "npm_download env d jsonData latest ver w = (Return (Obj record), w')
     \<Longrightarrow> key \<noteq> ''autoupdate'' \<Longrightarrow> key \<noteq> ''filename'' \<Longrightarrow> lookup record key = lookup d key"
  unfolding npm_download_def
  apply (drule bind_io_Return, clarify)+
  apply (auto simp: return_io_def Let_def lookup_obj_set split: if_splits)
  done

lemma npm_record:
  assumes run: "npm env cdnjsData (resp # ins, out) = (Return (Obj record), w')"
    and doc: "registry env (registry_url (npmName resp cdnjsData)) = Inr jsonData"
    and ver: "latest_version jsonData = Inr (latest, jsonVersionData)"
    and key: "key \<noteq> ''autoupdate''" "key \<noteq> ''filename''" "key \<noteq> ''authors''"
  shows "lookup record key
           = lookup (store_basic_info (jsonFullData jsonVersionData jsonData) cdnjsData) key"
proof -
  obtain err where err: "get_prop jsonData ''error'' = Inr err" and falsy: "\<not> truthy err"
    using run unfolding npm_def
    by (cases "get_prop jsonData ''error''") (auto simp: doc return_io_def split: if_splits)
  obtain nm where nm: "get_prop jsonData ''name'' = Inr nm"
    using run unfolding npm_def
    by (cases "get_prop jsonData ''name''") (auto simp: doc err falsy ver)
  obtain authors
    where authors: "transformAuthors (raw_authors (jsonFullData jsonVersionData jsonData)) = Inr authors"
    using run unfolding npm_def
    by (cases "transformAuthors (raw_authors (jsonFullData jsonVersionData jsonData))")
       (auto simp: doc err falsy ver nm)
  from run
  have "npm_download env
          (obj_set (store_basic_info (jsonFullData jsonVersionData jsonData) cdnjsData)
             ''authors'' (Arr authors))
          jsonData latest jsonVersionData
          (ins, out @ [Prompt (npm_prompt cdnjsData), Log (located nm latest)])
        = (Return (Obj record), w')"
    unfolding npm_def by (simp add: doc err falsy ver nm authors)
  from npm_download_record [OF this key(1,2)] key(3) show ?thesis
    by (simp add: lookup_obj_set)
qed

lemma sample_pkg_registry:
  "registry sample_env (registry_url (npmName [] [(''name'', Str ''pkg'')])) = Inr (Obj pkg_document)"
  by code_simp

lemma sample_pkg_latest: "latest_version (Obj pkg_document) = Inr (Str ''1.0.0'', pkg_version)"
  by code_simp

lemma sample_pkg_run:
  "fst (npm sample_env [(''name'', Str ''pkg'')] (sample_lines, []))
     = Return (sample_record ''pkg'' ''package text'' ''MIT'')"
  by code_simp

lemma sample_broken_run:
  "fst (npm sample_env [(''name'', Str ''broken'')] (sample_lines, []))
     = Return (sample_record ''broken'' [] [])"
  by code_simp

lemma sample_quiet_run:
  "fst (npm sample_env [(''name'', Str ''quiet'')] (sample_lines, []))
     = Return (sample_record ''quiet'' [] [])"
  by code_simp

text \<open>
  C1, as the code has it. The merged document is \<open>{...jsonVersionData, ...jsonData}\<close>:
  a field that the package-level document defines is taken from the package-level
  document, and only a field that it does not define is taken from the latest
  version's document. The record that \<open>npm\<close> returns stores, for description,
  keywords, license, homepage and repository, the value so merged, or the default
  when that value is falsy. When both documents define a field, the stored value is
  the package-level one.
\<close>

theorem npm_package_fields_first:
  assumes "npm env cdnjsData (resp # ins, out) = (Return (Obj record), w')"
    and "registry env (registry_url (npmName resp cdnjsData)) = Inr (Obj pkg)"
    and "latest_version (Obj pkg) = Inr (latest, jsonVersionData)"
  shows "lookup record ''description''
           = js_or (if ''description'' \<in> fst ` set pkg then lookup pkg ''description''
                    else lookup (own_props jsonVersionData) ''description'') (Str [])
       \<and> lookup record ''keywords''
           = js_or (if ''keywords'' \<in> fst ` set pkg then lookup pkg ''keywords''
                    else lookup (own_props jsonVersionData) ''keywords'') (Arr [])
       \<and> lookup record ''license''
           = js_or (if ''license'' \<in> fst ` set pkg then lookup pkg ''license''
                    else lookup (own_props jsonVersionData) ''license'') (Str [])
       \<and> lookup record ''homepage''
           = js_or (if ''homepage'' \<in> fst ` set pkg then lookup pkg ''homepage''
                    else lookup (own_props jsonVersionData) ''homepage'') (Str [])
       \<and> lookup record ''repository''
           = js_or (if ''repository'' \<in> fst ` set pkg then lookup pkg ''repository''
                    else lookup (own_props jsonVersionData) ''repository'') (Obj [])"
  using npm_record [OF assms, of "''description''"] npm_record [OF assms, of "''keywords''"]
    npm_record [OF assms, of "''license''"] npm_record [OF assms, of "''homepage''"]
    npm_record [OF assms, of "''repository''"]
  by (simp add: lookup_store_basic_info jsonFullData_def lookup_spread2)

theorem npm_package_fields_first_witness:
  "fst (npm sample_env [(''name'', Str ''pkg'')] (sample_lines, []))
     = Return (sample_record ''pkg'' ''package text'' ''MIT'')
   \<and> lookup pkg_document ''description'' = Str ''package text''
   \<and> get_prop pkg_version ''description'' = Inr (Str ''version text'')
   \<and> get_prop (sample_record ''pkg'' ''package text'' ''MIT'') ''description'' = Inr (Str ''package text'')
   \<and> lookup pkg_document ''license'' = Undefined
   \<and> get_prop pkg_version ''license'' = Inr (Str ''MIT'')
   \<and> get_prop (sample_record ''pkg'' ''package text'' ''MIT'') ''license'' = Inr (Str ''MIT'')"
proof -
  have run: "npm sample_env [(''name'', Str ''pkg'')] ([] # tl sample_lines, [])
               = (Return (Obj (own_props (sample_record ''pkg'' ''package text'' ''MIT''))),
                  snd (npm sample_env [(''name'', Str ''pkg'')] (sample_lines, [])))"
    using sample_pkg_run
    by (simp add: sample_lines_def sample_record_def prod_eq_iff)
  have "lookup (own_props (sample_record ''pkg'' ''package text'' ''MIT'')) ''description''
          = js_or (if ''description'' \<in> fst ` set pkg_document then lookup pkg_document ''description''
                   else lookup (own_props pkg_version) ''description'') (Str [])"
    using npm_package_fields_first [OF run sample_pkg_registry sample_pkg_latest] by blast
  then have "get_prop (sample_record ''pkg'' ''package text'' ''MIT'') ''description''
               = Inr (Str ''package text'')"
    by (simp add: sample_record_def pkg_document_def lookup_def js_or_def)
  then show ?thesis
    by (simp add: sample_pkg_run)
       (simp add: sample_record_def pkg_document_def pkg_version_def lookup_def)
qed

text \<open>
  The package \<open>pkg\<close>: both documents define a description, and the record holds the
  description of the package-level document, not that of the version document.
\<close>

theorem npm_version_description_not_stored:
  "registry sample_env (registry_url (npmName [] [(''name'', Str ''pkg'')])) = Inr (Obj pkg_document)
   \<and> lookup pkg_document ''description'' = Str ''package text''
   \<and> latest_version (Obj pkg_document) = Inr (Str ''1.0.0'', pkg_version)
   \<and> get_prop pkg_version ''description'' = Inr (Str ''version text'')
   \<and> fst (npm sample_env [(''name'', Str ''pkg'')] (sample_lines, []))
       = Return (sample_record ''pkg'' ''package text'' ''MIT'')
   \<and> get_prop (sample_record ''pkg'' ''package text'' ''MIT'') ''description''
       = Inr (Str ''package text'')
   \<and> get_prop (sample_record ''pkg'' ''package text'' ''MIT'') ''description''
       \<noteq> get_prop pkg_version ''description''"
  by (simp add: sample_pkg_registry sample_pkg_latest sample_pkg_run)
     (simp add: sample_record_def pkg_document_def pkg_version_def lookup_def)

text \<open>
  C2, as the code has it. \<open>npm\<close> gives up and returns \<open>undefined\<close>, after writing the
  error, whenever the document that the registry returns for the package has an
  \<open>error\<close> field that is truthy. That is the only check: the document of the latest
  version is read out of the package document, not fetched, and its \<open>error\<close> field is
  not looked at.
\<close>

theorem npm_aborts_on_package_error:
  assumes "registry env (registry_url (npmName resp cdnjsData)) = Inr jsonData"
    and "get_prop jsonData ''error'' = Inr err" and "truthy err"
  shows "npm env cdnjsData (resp # ins, out)
           = (Return Undefined, (ins, out @ [Prompt (npm_prompt cdnjsData), Err (to_string err)]))"
  unfolding npm_def using assms
  by (simp add: return_io_def)

theorem npm_aborts_on_package_error_witness:
  "registry sample_env (registry_url (npmName [] [(''name'', Str ''nothing'')]))
     = Inr (Obj [(''error'', Str ''Not found'')])
   \<and> npm sample_env [(''name'', Str ''nothing'')] (sample_lines, [])
     = (Return Undefined,
        (tl sample_lines, [Prompt (npm_prompt [(''name'', Str ''nothing'')]), Err ''Not found'']))"
proof -
  have doc: "registry sample_env (registry_url (npmName [] [(''name'', Str ''nothing'')]))
               = Inr (Obj [(''error'', Str ''Not found'')])"
    by code_simp
  from npm_aborts_on_package_error
         [OF doc, of "Str ''Not found''" "tl sample_lines" "[]"]
  show ?thesis
    by (simp add: doc sample_lines_def)
qed

text \<open>
  The document of the latest version of \<open>broken\<close> holds an \<open>error\<close> field, and the
  package document of \<open>quiet\<close> holds an \<open>error\<close> field that is the empty string: in
  both runs \<open>npm\<close> returns a record.
\<close>

theorem npm_returns_record_despite_error_field:
  "registry sample_env (registry_url (npmName [] [(''name'', Str ''broken'')])) = Inr (Obj broken_document)
   \<and> latest_version (Obj broken_document) = Inr (Str ''1.0.0'', broken_version)
   \<and> get_prop broken_version ''error'' = Inr (Str ''version not found'')
   \<and> fst (npm sample_env [(''name'', Str ''broken'')] (sample_lines, []))
       = Return (sample_record ''broken'' [] [])
   \<and> registry sample_env (registry_url (npmName [] [(''name'', Str ''quiet'')])) = Inr (Obj quiet_document)
   \<and> map_of quiet_document ''error'' = Some (Str [])
   \<and> fst (npm sample_env [(''name'', Str ''quiet'')] (sample_lines, []))
       = Return (sample_record ''quiet'' [] [])
   \<and> sample_record ''broken'' [] [] \<noteq> Undefined
   \<and> sample_record ''quiet'' [] [] \<noteq> Undefined"
proof -
  have "registry sample_env (registry_url (npmName [] [(''name'', Str ''broken'')])) = Inr (Obj broken_document)"
    "latest_version (Obj broken_document) = Inr (Str ''1.0.0'', broken_version)"
    "registry sample_env (registry_url (npmName [] [(''name'', Str ''quiet'')])) = Inr (Obj quiet_document)"
    by code_simp+
  then show ?thesis
    by (simp add: sample_broken_run sample_quiet_run)
       (simp add: broken_version_def quiet_document_def sample_record_def)
qed

section \<open>Properties of publishing\<close>


lemma sample_request:
  "createPR_request sample_env (sample_record ''pkg'' ''package text'' ''MIT'') []
     = Inr \<lparr> pr_owner = ''cdnjs'', pr_repo = ''packages'',
             pr_title = ''Add pkg w/ npm auto-update'',
             pr_body = ''Adding pkg using npm auto-update from pkg.'',
             pr_head = ''add-pkg'',
             pr_files = [(''packages/p/pkg.json'',
                          stringify_text (sample_record ''pkg'' ''package text'' ''MIT'') @ NL)],
             pr_commit = ''Add pkg w/ npm auto-update'' \<rparr>"
  by code_simp

lemma sample_stringify:
  "stringify_text (Obj [(''name'', Str ''pkg''), (''keywords'', Arr []), (''list'', Arr [Num 1, Undefined])])
     = ''{'' @ NL
       @ ''  '' @ [CHR 0x22] @ ''name'' @ [CHR 0x22] @ '': '' @ [CHR 0x22] @ ''pkg'' @ [CHR 0x22] @ '','' @ NL
       @ ''  '' @ [CHR 0x22] @ ''keywords'' @ [CHR 0x22] @ '': []'' @ '','' @ NL
       @ ''  '' @ [CHR 0x22] @ ''list'' @ [CHR 0x22] @ '': ['' @ NL
       @ ''    1,'' @ NL
       @ ''    null'' @ NL
       @ ''  ]'' @ NL
       @ ''}''"
  by code_simp

text \<open>A whole run of \<open>main\<close> for the library \<open>pkg\<close>: the user picks the registry
  variant, answers as above and names no issue; the pull-request call fails.\<close>

lemma sample_main_run:
  "fst (main sample_env [''node'', ''index.js'', ''pkg''] (''1'' # sample_lines @ [[]], [])) = Return ()
   \<and> drop 19 (snd (snd (main sample_env [''node'', ''index.js'', ''pkg'']
                             (''1'' # sample_lines @ [[]], []))))
       = [Log (NL @ NL @ ''Create new file on cdnjs/packages: packages/p/pkg.json''),
          Log (stringify_text (sample_record ''pkg'' ''package text'' ''MIT''))]"
  by code_simp


end
